theory Spec2Isabelle
  imports Main "HOL-Library.Word"
begin

section \<open>Python values\<close>

text \<open>
  The serialized form of every entity is a nested Python \<open>dict\<close>. A dict is an association
  list in insertion order with string keys. A Python \<open>float\<close> is never computed with in the
  code under study, only stored and copied, so it is carried as its 64-bit pattern.
\<close>

type_synonym pyfloat = "64 word"

datatype pyval =
    PNone
  | PBool bool
  | PInt int
  | PFloat pyfloat
  | PStr string
  | PList "pyval list"
  | PDict "(string \<times> pyval) list"

type_synonym pydict = "(string \<times> pyval) list"

text \<open>
  Exceptions of the deserializers: \<open>data['k']\<close> on a missing key, and an enum constructor
  applied to an unknown tag. Python stores whatever value it finds under a key; the records
  below are typed after the field annotations of the source, and a value that does not have
  the annotated type is outside the model (\<open>IllTyped\<close>).
\<close>

datatype py_error = KeyError string | ValueError string | IllTyped string

definition bind_res :: "py_error + 'a \<Rightarrow> ('a \<Rightarrow> py_error + 'b) \<Rightarrow> py_error + 'b" where
  "bind_res r f = (case r of Inl e \<Rightarrow> Inl e | Inr v \<Rightarrow> f v)"

section \<open>universe\_state.py\<close>

datatype SourceEnergyLevel =
    E_COMMON | D_RARE | C_PRECIOUS | B_LEGENDARY | A_SACRED | OMEGA_ABSOLUTE

record SourceEnergyFragment =
  id_frag :: string
  level :: SourceEnergyLevel
  location_world :: string
  location_coordinates :: "(string \<times> pyfloat) list"
  discovered_by :: "string option"
  collected_by :: "string option"
  collection_timestamp :: "string option"

record StarData =
  name :: string
  catalog_id :: string
  lifespan_remaining_years :: pyfloat
  fusion_power_output_watts :: pyfloat
  protection_shield_status :: pyfloat
  cloaking_field_active :: bool

record UniverseMigrationPlan =
  current_star_plan :: StarData
  next_star_name :: string
  next_star_distance_ly :: pyfloat
  replication_units_deployed :: int
  estimated_migration_year :: int
  migration_in_progress :: bool

record UniverseState =
  universe_id :: string
  cycle_number :: int
  creation_timestamp :: string
  current_star :: StarData
  migration_plan :: UniverseMigrationPlan
  total_source_energy_allocated :: int
  source_energy_consumed :: int
  source_energy_fragments :: "SourceEnergyFragment list"
  escape_gateway_locations :: "pydict list"
  entities_escaped :: "string list"
  escape_keys_needed :: int
  coordinate_key_fragments :: "string list"
  virtual_worlds_active :: int

text \<open>
  The defaults of \<open>UniverseState()\<close>. The float literals of the source are written as their
  IEEE-754 double bit patterns: \<open>4.5e9\<close>, \<open>3.828e26\<close>, \<open>0.98\<close> and \<open>4.24\<close>. \<open>now\<close> is what
  \<open>datetime.now().isoformat()\<close> returns.
\<close>

definition Sol_001 :: StarData where
  "Sol_001 =
     \<lparr> name = ''Sol-001'',
       catalog_id = ''SOL_001'',
       lifespan_remaining_years = 0x41F0C388D0000000,
       fusion_power_output_watts = 0x4573CA50D94D4D4F,
       protection_shield_status = 0x3FEF5C28F5C28F5C,
       cloaking_field_active = True \<rparr>"

definition UniverseState_default :: "string \<Rightarrow> UniverseState" where
  "UniverseState_default now =
     \<lparr> universe_id = ''RIWA2-Metaverse-001'',
       cycle_number = 8374,
       creation_timestamp = now,
       current_star = Sol_001,
       migration_plan =
         \<lparr> current_star_plan = Sol_001,
           next_star_name = ''Proxima Centauri'',
           next_star_distance_ly = 0x4010F5C28F5C28F6,
           replication_units_deployed = 3,
           estimated_migration_year = 3200000000,
           migration_in_progress = False \<rparr>,
       total_source_energy_allocated = 1000000,
       source_energy_consumed = 0,
       source_energy_fragments = [],
       escape_gateway_locations = [],
       entities_escaped = [],
       escape_keys_needed = 7,
       coordinate_key_fragments = [],
       virtual_worlds_active = 2 \<rparr>"

text \<open>
  \<open>consume_source_energy\<close>: the method mutates \<open>self\<close> and returns a bool; the model returns
  the bool together with the ledger after the call.
\<close>

definition consume_source_energy :: "UniverseState \<Rightarrow> int \<Rightarrow> bool \<times> UniverseState" where
  "consume_source_energy self amount =
     (let available = total_source_energy_allocated self - source_energy_consumed self in
      if available \<ge> amount
      then (True, self\<lparr>source_energy_consumed := source_energy_consumed self + amount\<rparr>)
      else (False, self))"

definition available_source_energy :: "UniverseState \<Rightarrow> int" where
  "available_source_energy self = total_source_energy_allocated self - source_energy_consumed self"

text \<open>A run of \<open>consume_source_energy\<close> calls, one per amount, results ignored.\<close>

fun consume_all :: "UniverseState \<Rightarrow> int list \<Rightarrow> UniverseState" where
  "consume_all self [] = self"
| "consume_all self (a # as) = consume_all (snd (consume_source_energy self a)) as"


text \<open>
  \<open>str(n)\<close> for a Python int, as the f-strings of the source render it: decimal, with a
  leading minus sign for a negative number.
\<close>

definition digit_char :: "nat \<Rightarrow> char" where
  "digit_char d = ''0123456789'' ! d"

function str_nat :: "nat \<Rightarrow> string" where
  "str_nat n = (if n < 10 then [digit_char n] else str_nat (n div 10) @ [digit_char (n mod 10)])"
  by pat_completeness auto
termination
  by (relation "measure (\<lambda>n. n)") auto

definition str_int :: "int \<Rightarrow> string" where
  "str_int i = (if i < 0 then CHR ''-'' # str_nat (nat (- i)) else str_nat (nat i))"

text \<open>
  \<open>check_escape_readiness\<close>: the list comprehension \<open>entity_fragments\<close> is a \<open>filter\<close>;
  \<open>collected_by\<close> is compared with a \<open>str\<close>, so an unset \<open>collected_by\<close> never matches. The
  threshold is the ledger's field \<open>escape_keys_needed\<close>.
\<close>

definition entity_fragments :: "UniverseState \<Rightarrow> string \<Rightarrow> SourceEnergyFragment list" where
  "entity_fragments self e_id =
     filter (\<lambda>f. collected_by f = Some e_id \<and> level f = A_SACRED) (source_energy_fragments self)"

definition check_escape_readiness :: "UniverseState \<Rightarrow> string \<Rightarrow> bool \<times> string" where
  "check_escape_readiness self e_id =
     (let has_fragments = (int (length (entity_fragments self e_id)) \<ge> escape_keys_needed self);
          has_key = (e_id \<in> set (coordinate_key_fragments self))
      in if has_fragments \<and> has_key then (True, ''Ready for escape'')
         else (False,
               if \<not> has_fragments
               then ''Missing: ''
                    @ str_int (escape_keys_needed self - int (length (entity_fragments self e_id)))
                    @ '' fragments''
               else ''Key coordinates incomplete''))"

section \<open>escape\_protocol.py\<close>

datatype EscapeStatus =
    NOT_STARTED | FRAGMENTS_COLLECTING | KEY_DECRYPTING | GATEWAY_OPENING
  | PRINTING | ESCAPED | FAILED

text \<open>The position of a status in the declaration of the enum.\<close>

fun status_rank :: "EscapeStatus \<Rightarrow> nat" where
  "status_rank NOT_STARTED = 0"
| "status_rank FRAGMENTS_COLLECTING = 1"
| "status_rank KEY_DECRYPTING = 2"
| "status_rank GATEWAY_OPENING = 3"
| "status_rank PRINTING = 4"
| "status_rank ESCAPED = 5"
| "status_rank FAILED = 6"

record CoordinateKeyFragment =
  fragment_id :: string
  hidden_in_world :: string
  clue_type :: string
  clue_value :: string
  discovery_requirements :: pydict
  discovered_at :: "string option"
  discovered_by_key :: "string option"

record TerminalGateway =
  gateway_id :: string
  location_world_gw :: string
  location_coordinates_gw :: "(string \<times> pyfloat) list"
  is_active :: bool
  activation_time :: "string option"
  activated_by_entity :: "string option"
  source_energy_cost :: int
  printing_capacity :: int
  entities_in_queue :: "string list"
  current_printing_entity :: "string option"
  printing_progress :: pyfloat

record EscapeAttempt =
  attempt_id :: string
  entity_id :: string
  entity_name :: string
  start_time :: string
  status :: EscapeStatus
  collected_a_level_fragments :: "string list"
  discovered_key_fragments :: "string list"
  final_coordinate_key :: "string option"
  gateway_id_att :: "string option"
  gateway_activation_time :: "string option"
  printing_start_time :: "string option"
  printing_complete_time :: "string option"
  printing_destination :: "string option"
  success :: bool
  result_message :: string
  post_escape_action :: "string option"
  new_form_chosen :: "pydict option"

text \<open>
  The defaults of the dataclasses. \<open>uuid4()\<close> and \<open>datetime.now().isoformat()\<close> are read from
  the environment: whatever they return is an argument of the model. The float \<open>0.0\<close> is the
  all-zero bit pattern.
\<close>

definition TerminalGateway_default :: "string \<Rightarrow> TerminalGateway" where
  "TerminalGateway_default uuid =
     \<lparr> gateway_id = uuid,
       location_world_gw = ''universe_singularity'',
       location_coordinates_gw = [(''x'', 0), (''y'', 0), (''z'', 0)],
       is_active = False,
       activation_time = None,
       activated_by_entity = None,
       source_energy_cost = 7,
       printing_capacity = 1,
       entities_in_queue = [],
       current_printing_entity = None,
       printing_progress = 0 \<rparr>"

definition EscapeAttempt_new :: "string \<Rightarrow> string \<Rightarrow> string \<Rightarrow> string \<Rightarrow> EscapeAttempt" where
  "EscapeAttempt_new uuid now e_id e_name =
     \<lparr> attempt_id = uuid,
       entity_id = e_id,
       entity_name = e_name,
       start_time = now,
       status = NOT_STARTED,
       collected_a_level_fragments = [],
       discovered_key_fragments = [],
       final_coordinate_key = None,
       gateway_id_att = None,
       gateway_activation_time = None,
       printing_start_time = None,
       printing_complete_time = None,
       printing_destination = None,
       success = False,
       result_message = [],
       post_escape_action = None,
       new_form_chosen = None \<rparr>"

text \<open>
  The coordinator. It holds a reference to the ledger, which it reads and writes, so the
  ledger is a component of the coordinator's state. \<open>escape_attempts\<close> is a dict keyed by
  attempt id; the loops of the source walk its values in insertion order.
\<close>

type_synonym attempts = "(string \<times> EscapeAttempt) list"

record EscapeProtocol =
  universe_state :: UniverseState
  escape_attempts :: attempts
  coordinate_key_formula :: string
  terminal_gateway :: TerminalGateway

definition initialize_key_formula :: string where
  "initialize_key_formula = ''key_formula_locked_in_universe_core''"

definition EscapeProtocol_init :: "string \<Rightarrow> UniverseState \<Rightarrow> EscapeProtocol" where
  "EscapeProtocol_init gateway_uuid us =
     \<lparr> universe_state = us,
       escape_attempts = [],
       coordinate_key_formula = initialize_key_formula,
       terminal_gateway = TerminalGateway_default gateway_uuid \<rparr>"

text \<open>\<open>d[k] = v\<close>: an existing key keeps its place, a new key goes to the end.\<close>

fun dict_setitem :: "'k \<Rightarrow> 'v \<Rightarrow> ('k \<times> 'v) list \<Rightarrow> ('k \<times> 'v) list" where
  "dict_setitem k v [] = [(k, v)]"
| "dict_setitem k v ((k', v') # d) =
     (if k' = k then (k, v) # d else (k', v') # dict_setitem k v d)"

text \<open>
  \<open>start_escape_attempt\<close>: the attempt is stored in the dict and its status is set afterwards,
  on the same object; the stored attempt therefore has the new status too.
\<close>

definition start_escape_attempt ::
  "EscapeProtocol \<Rightarrow> string \<Rightarrow> string \<Rightarrow> string \<Rightarrow> string \<Rightarrow> EscapeAttempt \<times> EscapeProtocol" where
  "start_escape_attempt self uuid now e_id e_name =
     (let attempt = (EscapeAttempt_new uuid now e_id e_name)\<lparr>status := FRAGMENTS_COLLECTING\<rparr>
      in (attempt,
          self\<lparr>escape_attempts := dict_setitem (attempt_id attempt) attempt (escape_attempts self)\<rparr>))"

text \<open>
  Every loop over \<open>self.escape_attempts.values()\<close> in the source stops at the first attempt
  that passes its test. \<open>first_attempt\<close> splits the dict there: the entries before, the
  entry found, the entries after.
\<close>

definition first_attempt ::
  "(EscapeAttempt \<Rightarrow> bool) \<Rightarrow> attempts \<Rightarrow> (attempts \<times> (string \<times> EscapeAttempt) \<times> attempts) option" where
  "first_attempt P atts = List.extract (\<lambda>kv. P (snd kv)) atts"

text \<open>
  \<open>collect_fragment\<close>: the outer loop walks the ledger's fragments. A fragment with the
  wanted id is stamped at once; the function returns \<open>True\<close> only from inside the loop over
  the attempts, at the first attempt of the entity. With no such attempt the outer loop
  goes on, and stamps every further fragment of that id. \<open>now k\<close> is what the \<open>k\<close>-th call of
  \<open>datetime.now().isoformat()\<close> in this invocation returns.
\<close>

fun collect_fragment_loop ::
  "string \<Rightarrow> string \<Rightarrow> (nat \<Rightarrow> string) \<Rightarrow> nat \<Rightarrow> attempts \<Rightarrow> SourceEnergyFragment list
     \<Rightarrow> bool \<times> SourceEnergyFragment list \<times> attempts" where
  "collect_fragment_loop e_id f_id now k atts [] = (False, [], atts)"
| "collect_fragment_loop e_id f_id now k atts (fragment # rest) =
     (if id_frag fragment = f_id then
        (let fragment' = fragment\<lparr>collected_by := Some e_id,
                                   collection_timestamp := Some (now k)\<rparr>
         in case first_attempt (\<lambda>a. entity_id a = e_id) atts of
              Some (before, (key, attempt), after) \<Rightarrow>
                (True, fragment' # rest,
                 before @
                 (key, if f_id \<in> set (collected_a_level_fragments attempt) then attempt
                       else attempt\<lparr>collected_a_level_fragments :=
                                       collected_a_level_fragments attempt @ [f_id]\<rparr>)
                 # after)
            | None \<Rightarrow>
                (case collect_fragment_loop e_id f_id now (Suc k) atts rest of
                   (r, rest', atts') \<Rightarrow> (r, fragment' # rest', atts')))
      else (case collect_fragment_loop e_id f_id now k atts rest of
              (r, rest', atts') \<Rightarrow> (r, fragment # rest', atts')))"

definition collect_fragment ::
  "EscapeProtocol \<Rightarrow> (nat \<Rightarrow> string) \<Rightarrow> string \<Rightarrow> string \<Rightarrow> bool \<times> EscapeProtocol" where
  "collect_fragment self now e_id f_id =
     (case collect_fragment_loop e_id f_id now 0 (escape_attempts self)
             (source_energy_fragments (universe_state self)) of
        (r, frags', atts') \<Rightarrow>
          (r, self\<lparr>universe_state := (universe_state self)\<lparr>source_energy_fragments := frags'\<rparr>,
                   escape_attempts := atts'\<rparr>))"


text \<open>
  \<open>discover_key_fragment\<close>: the outer loop walks the ledger's flat list of key-fragment ids;
  at an entry equal to the wanted id, the first attempt of the entity is updated and the
  function returns. The status is assigned whatever it was before.
\<close>

fun discover_key_fragment_loop ::
  "string \<Rightarrow> string \<Rightarrow> attempts \<Rightarrow> string list \<Rightarrow> bool \<times> attempts" where
  "discover_key_fragment_loop e_id f_id atts [] = (False, atts)"
| "discover_key_fragment_loop e_id f_id atts (key_frag # rest) =
     (if key_frag = f_id then
        (case first_attempt (\<lambda>a. entity_id a = e_id) atts of
           Some (before, (key, attempt), after) \<Rightarrow>
             (True,
              before @
              (key, (if f_id \<in> set (discovered_key_fragments attempt) then attempt
                     else attempt\<lparr>discovered_key_fragments :=
                                     discovered_key_fragments attempt @ [f_id]\<rparr>)
                    \<lparr>status := KEY_DECRYPTING\<rparr>)
              # after)
         | None \<Rightarrow> discover_key_fragment_loop e_id f_id atts rest)
      else discover_key_fragment_loop e_id f_id atts rest)"

definition discover_key_fragment ::
  "EscapeProtocol \<Rightarrow> string \<Rightarrow> string \<Rightarrow> bool \<times> EscapeProtocol" where
  "discover_key_fragment self e_id f_id =
     (case discover_key_fragment_loop e_id f_id (escape_attempts self)
             (coordinate_key_fragments (universe_state self)) of
        (r, atts') \<Rightarrow> (r, self\<lparr>escape_attempts := atts'\<rparr>))"

text \<open>
  \<open>_verify_key\<close> compares \<open>hashlib.sha256(s.encode()).hexdigest()\<close> of the key and of the
  formula. The digest is a function of the standard library; it is the parameter \<open>digest\<close>,
  and everything below holds for any function in its place.
\<close>

definition verify_key :: "(string \<Rightarrow> string) \<Rightarrow> EscapeProtocol \<Rightarrow> string \<Rightarrow> bool" where
  "verify_key digest self key =
     (let expected = digest (coordinate_key_formula self) in digest key = expected)"

definition decrypt_coordinate_key ::
  "(string \<Rightarrow> string) \<Rightarrow> EscapeProtocol \<Rightarrow> string \<Rightarrow> string \<Rightarrow> bool \<times> EscapeProtocol" where
  "decrypt_coordinate_key digest self e_id provided_key =
     (case first_attempt (\<lambda>a. entity_id a = e_id \<and> verify_key digest self provided_key)
             (escape_attempts self) of
        Some (before, (key, attempt), after) \<Rightarrow>
          (True,
           self\<lparr>escape_attempts :=
                  before @
                  (key, attempt\<lparr>final_coordinate_key := Some provided_key,
                                status := GATEWAY_OPENING\<rparr>)
                  # after\<rparr>)
      | None \<Rightarrow> (False, self))"

text \<open>
  \<open>activate_gateway\<close>: the loop stops at the first attempt of the entity whose status is
  \<open>GATEWAY_OPENING\<close>; both early \<open>return False\<close> are inside that branch. The fragment count is
  the length of the attempt's list, and the amount debited is the literal 7.
\<close>

definition activate_gateway ::
  "EscapeProtocol \<Rightarrow> string \<Rightarrow> string \<Rightarrow> bool \<times> EscapeProtocol" where
  "activate_gateway self now e_id =
     (if is_active (terminal_gateway self) then (False, self)
      else
        (case first_attempt (\<lambda>a. entity_id a = e_id \<and> status a = GATEWAY_OPENING)
                (escape_attempts self) of
           None \<Rightarrow> (False, self)
         | Some (before, (key, attempt), after) \<Rightarrow>
             if length (collected_a_level_fragments attempt) < 7 then (False, self)
             else
               (case consume_source_energy (universe_state self) 7 of
                  (ok, us') \<Rightarrow>
                    if \<not> ok then (False, self)
                    else
                      (let gw = terminal_gateway self;
                           gw' = gw\<lparr>is_active := True,
                                    activation_time := Some now,
                                    activated_by_entity := Some e_id,
                                    entities_in_queue := entities_in_queue gw @ [e_id]\<rparr>;
                           attempt' = attempt\<lparr>gateway_activation_time := activation_time gw',
                                              status := PRINTING\<rparr>
                       in (True,
                           self\<lparr>universe_state := us',
                                terminal_gateway := gw',
                                escape_attempts := before @ (key, attempt') # after\<rparr>)))))"

text \<open>
  \<open>_generate_destination\<close> draws \<open>random.randint(1000, 9999)\<close>; the number drawn is the
  argument \<open>rnd\<close>.
\<close>

definition generate_destination :: "int \<Rightarrow> string" where
  "generate_destination rnd = ''Alpha_Centauri_'' @ str_int rnd"

definition print_entity_to_real_universe ::
  "EscapeProtocol \<Rightarrow> string \<Rightarrow> int \<Rightarrow> string \<Rightarrow> (bool \<times> string) \<times> EscapeProtocol" where
  "print_entity_to_real_universe self now rnd e_id =
     (if \<not> is_active (terminal_gateway self)
         \<or> current_printing_entity (terminal_gateway self) \<noteq> Some e_id
      then ((False, ''Gateway not ready or entity not in printing slot''), self)
      else
        (case first_attempt (\<lambda>a. entity_id a = e_id \<and> status a = PRINTING)
                (escape_attempts self) of
           Some (before, (key, attempt), after) \<Rightarrow>
             ((True, ''Printing initiated''),
              self\<lparr>escape_attempts :=
                     before @
                     (key, attempt\<lparr>printing_start_time := Some now,
                                   printing_destination :=
                                     Some (''RealUniverse_Coordinates_''
                                           @ generate_destination rnd)\<rparr>)
                     # after\<rparr>)
         | None \<Rightarrow> ((False, ''No active escape attempt for entity''), self)))"

text \<open>\<open>str(x)\<close> of an optional string inside an f-string: \<open>None\<close> prints as \<open>None\<close>.\<close>

definition str_optional :: "string option \<Rightarrow> string" where
  "str_optional x = (case x of None \<Rightarrow> ''None'' | Some s \<Rightarrow> s)"

definition complete_escape ::
  "EscapeProtocol \<Rightarrow> string \<Rightarrow> string \<Rightarrow> (bool \<times> string) \<times> EscapeProtocol" where
  "complete_escape self now e_id =
     (case first_attempt (\<lambda>a. entity_id a = e_id \<and> status a = PRINTING)
             (escape_attempts self) of
        Some (before, (key, attempt), after) \<Rightarrow>
          (let attempt' =
                 attempt\<lparr>printing_complete_time := Some now,
                         success := True,
                         status := ESCAPED,
                         result_message :=
                           ''Successfully transcended to real universe at ''
                           @ str_optional (printing_destination attempt)\<rparr>;
               gw = terminal_gateway self;
               gw' = gw\<lparr>entities_in_queue :=
                          (if e_id \<in> set (entities_in_queue gw)
                           then remove1 e_id (entities_in_queue gw)
                           else entities_in_queue gw),
                        current_printing_entity := None\<rparr>;
               us = universe_state self;
               us' = us\<lparr>entities_escaped := entities_escaped us @ [e_id]\<rparr>
           in ((True, result_message attempt'),
               self\<lparr>universe_state := us',
                    terminal_gateway := gw',
                    escape_attempts := before @ (key, attempt') # after\<rparr>))
      | None \<Rightarrow> ((False, ''No escape attempt found''), self))"

text \<open>\<open>if form_data:\<close> is false for \<open>None\<close> and for the empty dict.\<close>

definition truthy_dict :: "pydict option \<Rightarrow> bool" where
  "truthy_dict d = (case d of None \<Rightarrow> False | Some kvs \<Rightarrow> kvs \<noteq> [])"

definition choose_return_form ::
  "EscapeProtocol \<Rightarrow> string \<Rightarrow> string \<Rightarrow> pydict option \<Rightarrow> bool \<times> EscapeProtocol" where
  "choose_return_form self e_id action form_data =
     (case first_attempt (\<lambda>a. entity_id a = e_id \<and> success a) (escape_attempts self) of
        Some (before, (key, attempt), after) \<Rightarrow>
          (True,
           self\<lparr>escape_attempts :=
                  before @
                  (key, attempt\<lparr>post_escape_action := Some action,
                                new_form_chosen :=
                                  (if truthy_dict form_data then form_data
                                   else new_form_chosen attempt)\<rparr>)
                  # after\<rparr>)
      | None \<Rightarrow> (False, self))"

section \<open>Sequences of operations\<close>

text \<open>
  One constructor per state-changing method of the coordinator, with the arguments of the
  call and what the call reads from the environment (fresh uuid, clock, random number);
  \<open>ConsumeEnergy\<close> is the ledger's own method, which any caller holding the ledger may invoke.
  \<open>step\<close> returns the boolean the method returns (\<open>start_escape_attempt\<close>, which returns the
  attempt, counts as \<open>True\<close>) and the state after the call.
\<close>

datatype operation =
    StartAttempt string string string string
  | CollectFragment "nat \<Rightarrow> string" string string
  | DiscoverKeyFragment string string
  | DecryptCoordinateKey string string
  | ActivateGateway string string
  | BeginPrinting string int string
  | CompleteEscape string string
  | ChooseReturnForm string string "pydict option"
  | ConsumeEnergy int

fun step :: "(string \<Rightarrow> string) \<Rightarrow> EscapeProtocol \<Rightarrow> operation \<Rightarrow> bool \<times> EscapeProtocol" where
  "step digest s (StartAttempt uuid now e_id e_name) =
     (True, snd (start_escape_attempt s uuid now e_id e_name))"
| "step digest s (CollectFragment now e_id f_id) = collect_fragment s now e_id f_id"
| "step digest s (DiscoverKeyFragment e_id f_id) = discover_key_fragment s e_id f_id"
| "step digest s (DecryptCoordinateKey e_id k) = decrypt_coordinate_key digest s e_id k"
| "step digest s (ActivateGateway now e_id) = activate_gateway s now e_id"
| "step digest s (BeginPrinting now rnd e_id) =
     (case print_entity_to_real_universe s now rnd e_id of ((r, msg), s') \<Rightarrow> (r, s'))"
| "step digest s (CompleteEscape now e_id) =
     (case complete_escape s now e_id of ((r, msg), s') \<Rightarrow> (r, s'))"
| "step digest s (ChooseReturnForm e_id action form_data) =
     choose_return_form s e_id action form_data"
| "step digest s (ConsumeEnergy amount) =
     (case consume_source_energy (universe_state s) amount of
        (r, us') \<Rightarrow> (r, s\<lparr>universe_state := us'\<rparr>))"

fun run :: "(string \<Rightarrow> string) \<Rightarrow> EscapeProtocol \<Rightarrow> operation list \<Rightarrow> EscapeProtocol" where
  "run digest s [] = s"
| "run digest s (op # ops) = run digest (snd (step digest s op)) ops"

text \<open>The number of \<open>activate_gateway\<close> calls of a run that returned \<open>True\<close>.\<close>

fun is_activation :: "operation \<Rightarrow> bool" where
  "is_activation (ActivateGateway now e_id) = True"
| "is_activation other = False"

fun activations :: "(string \<Rightarrow> string) \<Rightarrow> EscapeProtocol \<Rightarrow> operation list \<Rightarrow> nat" where
  "activations digest s [] = 0"
| "activations digest s (op # ops) =
     (if is_activation op \<and> fst (step digest s op) then 1 else 0)
     + activations digest (snd (step digest s op)) ops"


section \<open>Serialized forms\<close>

text \<open>
  Dict access: \<open>data['k']\<close> raises \<open>KeyError\<close> on a missing key, \<open>data.get('k')\<close> gives \<open>None\<close>
  there and \<open>data.get('k', d)\<close> gives \<open>d\<close>.
\<close>

definition dict_item :: "pydict \<Rightarrow> string \<Rightarrow> py_error + pyval" where
  "dict_item data k = (case map_of data k of None \<Rightarrow> Inl (KeyError k) | Some v \<Rightarrow> Inr v)"

definition dict_get :: "pydict \<Rightarrow> string \<Rightarrow> pyval" where
  "dict_get data k = (case map_of data k of None \<Rightarrow> PNone | Some v \<Rightarrow> v)"

definition dict_get_default :: "pydict \<Rightarrow> string \<Rightarrow> pyval \<Rightarrow> pyval" where
  "dict_get_default data k d = (case map_of data k of None \<Rightarrow> d | Some v \<Rightarrow> v)"

text \<open>
  Between the typed fields of the records and untyped Python values: the injections are
  what \<open>to_dict\<close> stores, the projections read a value of the annotated type back.
\<close>

fun map_res :: "('a \<Rightarrow> py_error + 'b) \<Rightarrow> 'a list \<Rightarrow> py_error + 'b list" where
  "map_res f [] = Inr []"
| "map_res f (x # xs) = bind_res (f x) (\<lambda>y. bind_res (map_res f xs) (\<lambda>ys. Inr (y # ys)))"

definition of_opt_str :: "string option \<Rightarrow> pyval" where
  "of_opt_str x = (case x of None \<Rightarrow> PNone | Some s \<Rightarrow> PStr s)"

definition of_str_list :: "string list \<Rightarrow> pyval" where
  "of_str_list xs = PList (map PStr xs)"

definition of_float_dict :: "(string \<times> pyfloat) list \<Rightarrow> pyval" where
  "of_float_dict kvs = PDict (map (\<lambda>kv. (fst kv, PFloat (snd kv))) kvs)"

definition of_opt_dict :: "pydict option \<Rightarrow> pyval" where
  "of_opt_dict x = (case x of None \<Rightarrow> PNone | Some d \<Rightarrow> PDict d)"

definition of_dict_list :: "pydict list \<Rightarrow> pyval" where
  "of_dict_list ds = PList (map PDict ds)"

fun as_str :: "pyval \<Rightarrow> py_error + string" where
  "as_str (PStr s) = Inr s"
| "as_str v = Inl (IllTyped ''str'')"

fun as_opt_str :: "pyval \<Rightarrow> py_error + string option" where
  "as_opt_str PNone = Inr None"
| "as_opt_str (PStr s) = Inr (Some s)"
| "as_opt_str v = Inl (IllTyped ''Optional[str]'')"

fun as_int :: "pyval \<Rightarrow> py_error + int" where
  "as_int (PInt i) = Inr i"
| "as_int v = Inl (IllTyped ''int'')"

fun as_bool :: "pyval \<Rightarrow> py_error + bool" where
  "as_bool (PBool b) = Inr b"
| "as_bool v = Inl (IllTyped ''bool'')"

fun as_float :: "pyval \<Rightarrow> py_error + pyfloat" where
  "as_float (PFloat x) = Inr x"
| "as_float v = Inl (IllTyped ''float'')"

fun as_list :: "pyval \<Rightarrow> py_error + pyval list" where
  "as_list (PList vs) = Inr vs"
| "as_list v = Inl (IllTyped ''list'')"

fun as_dict :: "pyval \<Rightarrow> py_error + pydict" where
  "as_dict (PDict d) = Inr d"
| "as_dict v = Inl (IllTyped ''dict'')"

fun as_opt_dict :: "pyval \<Rightarrow> py_error + pydict option" where
  "as_opt_dict PNone = Inr None"
| "as_opt_dict (PDict d) = Inr (Some d)"
| "as_opt_dict v = Inl (IllTyped ''Optional[dict]'')"

definition as_str_list :: "pyval \<Rightarrow> py_error + string list" where
  "as_str_list v = bind_res (as_list v) (map_res as_str)"

definition as_dict_list :: "pyval \<Rightarrow> py_error + pydict list" where
  "as_dict_list v = bind_res (as_list v) (map_res as_dict)"

definition as_float_dict :: "pyval \<Rightarrow> py_error + (string \<times> pyfloat) list" where
  "as_float_dict v =
     bind_res (as_dict v)
       (map_res (\<lambda>kv. bind_res (as_float (snd kv)) (\<lambda>x. Inr (fst kv, x))))"

text \<open>
  The enums: \<open>.value\<close> is the string tag, and the constructor applied to anything that is
  not the tag of a member raises \<open>ValueError\<close>.
\<close>

fun SourceEnergyLevel_value :: "SourceEnergyLevel \<Rightarrow> string" where
  "SourceEnergyLevel_value E_COMMON = ''E_Common''"
| "SourceEnergyLevel_value D_RARE = ''D_Rare''"
| "SourceEnergyLevel_value C_PRECIOUS = ''C_Precious''"
| "SourceEnergyLevel_value B_LEGENDARY = ''B_Legendary''"
| "SourceEnergyLevel_value A_SACRED = ''A_Sacred''"
| "SourceEnergyLevel_value OMEGA_ABSOLUTE = ''Omega_Absolute''"

definition SourceEnergyLevel_members :: "SourceEnergyLevel list" where
  "SourceEnergyLevel_members =
     [E_COMMON, D_RARE, C_PRECIOUS, B_LEGENDARY, A_SACRED, OMEGA_ABSOLUTE]"

fun SourceEnergyLevel_of :: "pyval \<Rightarrow> py_error + SourceEnergyLevel" where
  "SourceEnergyLevel_of (PStr s) =
     (case find (\<lambda>m. SourceEnergyLevel_value m = s) SourceEnergyLevel_members of
        Some m \<Rightarrow> Inr m
      | None \<Rightarrow> Inl (ValueError s))"
| "SourceEnergyLevel_of v = Inl (ValueError ''SourceEnergyLevel'')"

fun EscapeStatus_value :: "EscapeStatus \<Rightarrow> string" where
  "EscapeStatus_value NOT_STARTED = ''not_started''"
| "EscapeStatus_value FRAGMENTS_COLLECTING = ''collecting_fragments''"
| "EscapeStatus_value KEY_DECRYPTING = ''decrypting_key''"
| "EscapeStatus_value GATEWAY_OPENING = ''opening_gateway''"
| "EscapeStatus_value PRINTING = ''printing_to_real_universe''"
| "EscapeStatus_value ESCAPED = ''escaped''"
| "EscapeStatus_value FAILED = ''failed''"

definition EscapeStatus_members :: "EscapeStatus list" where
  "EscapeStatus_members =
     [NOT_STARTED, FRAGMENTS_COLLECTING, KEY_DECRYPTING, GATEWAY_OPENING, PRINTING, ESCAPED,
      FAILED]"

fun EscapeStatus_of :: "pyval \<Rightarrow> py_error + EscapeStatus" where
  "EscapeStatus_of (PStr s) =
     (case find (\<lambda>m. EscapeStatus_value m = s) EscapeStatus_members of
        Some m \<Rightarrow> Inr m
      | None \<Rightarrow> Inl (ValueError s))"
| "EscapeStatus_of v = Inl (ValueError ''EscapeStatus'')"

subsection \<open>SourceEnergyFragment\<close>

definition SourceEnergyFragment_to_dict :: "SourceEnergyFragment \<Rightarrow> pydict" where
  "SourceEnergyFragment_to_dict self =
     [(''id'', PStr (id_frag self)),
      (''level'', PStr (SourceEnergyLevel_value (level self))),
      (''location_world'', PStr (location_world self)),
      (''location_coordinates'', of_float_dict (location_coordinates self)),
      (''discovered_by'', of_opt_str (discovered_by self)),
      (''collected_by'', of_opt_str (collected_by self)),
      (''collection_timestamp'', of_opt_str (collection_timestamp self))]"

definition SourceEnergyFragment_from_dict :: "pydict \<Rightarrow> py_error + SourceEnergyFragment" where
  "SourceEnergyFragment_from_dict data =
     bind_res (bind_res (dict_item data ''id'') as_str) (\<lambda>v_id.
     bind_res (bind_res (dict_item data ''level'') SourceEnergyLevel_of) (\<lambda>v_level.
     bind_res (bind_res (dict_item data ''location_world'') as_str) (\<lambda>v_world.
     bind_res (bind_res (dict_item data ''location_coordinates'') as_float_dict) (\<lambda>v_coords.
     bind_res (as_opt_str (dict_get data ''discovered_by'')) (\<lambda>v_disc.
     bind_res (as_opt_str (dict_get data ''collected_by'')) (\<lambda>v_coll.
     bind_res (as_opt_str (dict_get data ''collection_timestamp'')) (\<lambda>v_ts.
     Inr \<lparr>
         id_frag = v_id,
         level = v_level,
         location_world = v_world,
         location_coordinates = v_coords,
         discovered_by = v_disc,
         collected_by = v_coll,
         collection_timestamp = v_ts \<rparr>)))))))"

subsection \<open>StarData\<close>

definition StarData_to_dict :: "StarData \<Rightarrow> pydict" where
  "StarData_to_dict self =
     [(''name'', PStr (name self)),
      (''catalog_id'', PStr (catalog_id self)),
      (''lifespan_remaining_years'', PFloat (lifespan_remaining_years self)),
      (''fusion_power_output_watts'', PFloat (fusion_power_output_watts self)),
      (''protection_shield_status'', PFloat (protection_shield_status self)),
      (''cloaking_field_active'', PBool (cloaking_field_active self))]"

definition StarData_from_dict :: "pydict \<Rightarrow> py_error + StarData" where
  "StarData_from_dict data =
     bind_res (bind_res (dict_item data ''name'') as_str) (\<lambda>v_name.
     bind_res (bind_res (dict_item data ''catalog_id'') as_str) (\<lambda>v_cat.
     bind_res (bind_res (dict_item data ''lifespan_remaining_years'') as_float) (\<lambda>v_life.
     bind_res (bind_res (dict_item data ''fusion_power_output_watts'') as_float) (\<lambda>v_fus.
     bind_res (bind_res (dict_item data ''protection_shield_status'') as_float) (\<lambda>v_shield.
     bind_res (bind_res (dict_item data ''cloaking_field_active'') as_bool) (\<lambda>v_cloak.
     Inr \<lparr>
         name = v_name,
         catalog_id = v_cat,
         lifespan_remaining_years = v_life,
         fusion_power_output_watts = v_fus,
         protection_shield_status = v_shield,
         cloaking_field_active = v_cloak \<rparr>))))))"

subsection \<open>UniverseMigrationPlan\<close>

definition UniverseMigrationPlan_to_dict :: "UniverseMigrationPlan \<Rightarrow> pydict" where
  "UniverseMigrationPlan_to_dict self =
     [(''current_star'', PDict (StarData_to_dict (current_star_plan self))),
      (''next_star_name'', PStr (next_star_name self)),
      (''next_star_distance_ly'', PFloat (next_star_distance_ly self)),
      (''replication_units_deployed'', PInt (replication_units_deployed self)),
      (''estimated_migration_year'', PInt (estimated_migration_year self)),
      (''migration_in_progress'', PBool (migration_in_progress self))]"

definition UniverseMigrationPlan_from_dict :: "pydict \<Rightarrow> py_error + UniverseMigrationPlan" where
  "UniverseMigrationPlan_from_dict data =
     bind_res (bind_res (bind_res (dict_item data ''current_star'') as_dict) StarData_from_dict) (\<lambda>v_star.
     bind_res (bind_res (dict_item data ''next_star_name'') as_str) (\<lambda>v_next.
     bind_res (bind_res (dict_item data ''next_star_distance_ly'') as_float) (\<lambda>v_dist.
     bind_res (bind_res (dict_item data ''replication_units_deployed'') as_int) (\<lambda>v_units.
     bind_res (bind_res (dict_item data ''estimated_migration_year'') as_int) (\<lambda>v_year.
     bind_res (as_bool (dict_get_default data ''migration_in_progress'' (PBool False))) (\<lambda>v_prog.
     Inr \<lparr>
         current_star_plan = v_star,
         next_star_name = v_next,
         next_star_distance_ly = v_dist,
         replication_units_deployed = v_units,
         estimated_migration_year = v_year,
         migration_in_progress = v_prog \<rparr>))))))"

subsection \<open>UniverseState\<close>

definition UniverseState_to_dict :: "UniverseState \<Rightarrow> pydict" where
  "UniverseState_to_dict self =
     [(''universe_id'', PStr (universe_id self)),
      (''cycle_number'', PInt (cycle_number self)),
      (''creation_timestamp'', PStr (creation_timestamp self)),
      (''current_star'', PDict (StarData_to_dict (current_star self))),
      (''migration_plan'', PDict (UniverseMigrationPlan_to_dict (migration_plan self))),
      (''total_source_energy_allocated'', PInt (total_source_energy_allocated self)),
      (''source_energy_consumed'', PInt (source_energy_consumed self)),
      (''source_energy_fragments'',
         PList (map (\<lambda>f. PDict (SourceEnergyFragment_to_dict f)) (source_energy_fragments self))),
      (''escape_gateway_locations'', of_dict_list (escape_gateway_locations self)),
      (''entities_escaped'', of_str_list (entities_escaped self)),
      (''escape_keys_needed'', PInt (escape_keys_needed self)),
      (''coordinate_key_fragments'', of_str_list (coordinate_key_fragments self)),
      (''virtual_worlds_active'', PInt (virtual_worlds_active self))]"

text \<open>\<open>now\<close> is what \<open>datetime.now().isoformat()\<close> returns when the default is evaluated.\<close>

definition UniverseState_from_dict :: "string \<Rightarrow> pydict \<Rightarrow> py_error + UniverseState" where
  "UniverseState_from_dict now data =
     bind_res (as_str (dict_get_default data ''universe_id'' (PStr ''RIWA2-Metaverse-001''))) (\<lambda>v_uid.
     bind_res (as_int (dict_get_default data ''cycle_number'' (PInt 8374))) (\<lambda>v_cycle.
     bind_res (as_str (dict_get_default data ''creation_timestamp'' (PStr now))) (\<lambda>v_created.
     bind_res (bind_res (bind_res (dict_item data ''current_star'') as_dict) StarData_from_dict) (\<lambda>v_star.
     bind_res (bind_res (bind_res (dict_item data ''migration_plan'') as_dict) UniverseMigrationPlan_from_dict) (\<lambda>v_plan.
     bind_res (as_int (dict_get_default data ''total_source_energy_allocated'' (PInt 1000000))) (\<lambda>v_alloc.
     bind_res (as_int (dict_get_default data ''source_energy_consumed'' (PInt 0))) (\<lambda>v_cons.
     bind_res (bind_res (bind_res (as_list (dict_get_default data ''source_energy_fragments'' (PList []))) (map_res as_dict)) (map_res SourceEnergyFragment_from_dict)) (\<lambda>v_frags.
     bind_res (as_dict_list (dict_get_default data ''escape_gateway_locations'' (PList []))) (\<lambda>v_locs.
     bind_res (as_str_list (dict_get_default data ''entities_escaped'' (PList []))) (\<lambda>v_esc.
     bind_res (as_int (dict_get_default data ''escape_keys_needed'' (PInt 7))) (\<lambda>v_keys.
     bind_res (as_str_list (dict_get_default data ''coordinate_key_fragments'' (PList []))) (\<lambda>v_ckf.
     bind_res (as_int (dict_get_default data ''virtual_worlds_active'' (PInt 2))) (\<lambda>v_worlds.
     Inr \<lparr>
         universe_id = v_uid,
         cycle_number = v_cycle,
         creation_timestamp = v_created,
         current_star = v_star,
         migration_plan = v_plan,
         total_source_energy_allocated = v_alloc,
         source_energy_consumed = v_cons,
         source_energy_fragments = v_frags,
         escape_gateway_locations = v_locs,
         entities_escaped = v_esc,
         escape_keys_needed = v_keys,
         coordinate_key_fragments = v_ckf,
         virtual_worlds_active = v_worlds \<rparr>)))))))))))))"

subsection \<open>CoordinateKeyFragment\<close>

definition CoordinateKeyFragment_to_dict :: "CoordinateKeyFragment \<Rightarrow> pydict" where
  "CoordinateKeyFragment_to_dict self =
     [(''fragment_id'', PStr (fragment_id self)),
      (''hidden_in_world'', PStr (hidden_in_world self)),
      (''clue_type'', PStr (clue_type self)),
      (''clue_value'', PStr (clue_value self)),
      (''discovery_requirements'', PDict (discovery_requirements self)),
      (''discovered_at'', of_opt_str (discovered_at self)),
      (''discovered_by'', of_opt_str (discovered_by_key self))]"

definition CoordinateKeyFragment_from_dict :: "pydict \<Rightarrow> py_error + CoordinateKeyFragment" where
  "CoordinateKeyFragment_from_dict data =
     bind_res (bind_res (dict_item data ''fragment_id'') as_str) (\<lambda>v_id.
     bind_res (bind_res (dict_item data ''hidden_in_world'') as_str) (\<lambda>v_world.
     bind_res (bind_res (dict_item data ''clue_type'') as_str) (\<lambda>v_type.
     bind_res (bind_res (dict_item data ''clue_value'') as_str) (\<lambda>v_value.
     bind_res (bind_res (dict_item data ''discovery_requirements'') as_dict) (\<lambda>v_req.
     bind_res (as_opt_str (dict_get data ''discovered_at'')) (\<lambda>v_at.
     bind_res (as_opt_str (dict_get data ''discovered_by'')) (\<lambda>v_by.
     Inr \<lparr>
         fragment_id = v_id,
         hidden_in_world = v_world,
         clue_type = v_type,
         clue_value = v_value,
         discovery_requirements = v_req,
         discovered_at = v_at,
         discovered_by_key = v_by \<rparr>)))))))"

subsection \<open>TerminalGateway\<close>

definition TerminalGateway_to_dict :: "TerminalGateway \<Rightarrow> pydict" where
  "TerminalGateway_to_dict self =
     [(''gateway_id'', PStr (gateway_id self)),
      (''location_world'', PStr (location_world_gw self)),
      (''location_coordinates'', of_float_dict (location_coordinates_gw self)),
      (''is_active'', PBool (is_active self)),
      (''activation_time'', of_opt_str (activation_time self)),
      (''activated_by_entity'', of_opt_str (activated_by_entity self)),
      (''source_energy_cost'', PInt (source_energy_cost self)),
      (''printing_capacity'', PInt (printing_capacity self)),
      (''entities_in_queue'', of_str_list (entities_in_queue self)),
      (''current_printing_entity'', of_opt_str (current_printing_entity self)),
      (''printing_progress'', PFloat (printing_progress self))]"

text \<open>\<open>uuid\<close> is what \<open>str(uuid4())\<close> returns when the default is evaluated.\<close>

definition TerminalGateway_from_dict :: "string \<Rightarrow> pydict \<Rightarrow> py_error + TerminalGateway" where
  "TerminalGateway_from_dict uuid data =
     bind_res (as_str (dict_get_default data ''gateway_id'' (PStr uuid))) (\<lambda>v_id.
     bind_res (as_str (dict_get_default data ''location_world'' (PStr ''universe_singularity''))) (\<lambda>v_world.
     bind_res (as_float_dict (dict_get_default data ''location_coordinates'' (PDict [(''x'', PFloat 0), (''y'', PFloat 0), (''z'', PFloat 0)]))) (\<lambda>v_coords.
     bind_res (as_bool (dict_get_default data ''is_active'' (PBool False))) (\<lambda>v_active.
     bind_res (as_opt_str (dict_get data ''activation_time'')) (\<lambda>v_time.
     bind_res (as_opt_str (dict_get data ''activated_by_entity'')) (\<lambda>v_by.
     bind_res (as_int (dict_get_default data ''source_energy_cost'' (PInt 7))) (\<lambda>v_cost.
     bind_res (as_int (dict_get_default data ''printing_capacity'' (PInt 1))) (\<lambda>v_cap.
     bind_res (as_str_list (dict_get_default data ''entities_in_queue'' (PList []))) (\<lambda>v_queue.
     bind_res (as_opt_str (dict_get data ''current_printing_entity'')) (\<lambda>v_cur.
     bind_res (as_float (dict_get_default data ''printing_progress'' (PFloat 0))) (\<lambda>v_prog.
     Inr \<lparr>
         gateway_id = v_id,
         location_world_gw = v_world,
         location_coordinates_gw = v_coords,
         is_active = v_active,
         activation_time = v_time,
         activated_by_entity = v_by,
         source_energy_cost = v_cost,
         printing_capacity = v_cap,
         entities_in_queue = v_queue,
         current_printing_entity = v_cur,
         printing_progress = v_prog \<rparr>)))))))))))"

subsection \<open>EscapeAttempt\<close>

definition EscapeAttempt_to_dict :: "EscapeAttempt \<Rightarrow> pydict" where
  "EscapeAttempt_to_dict self =
     [(''attempt_id'', PStr (attempt_id self)),
      (''entity_id'', PStr (entity_id self)),
      (''entity_name'', PStr (entity_name self)),
      (''start_time'', PStr (start_time self)),
      (''status'', PStr (EscapeStatus_value (status self))),
      (''collected_a_level_fragments'', of_str_list (collected_a_level_fragments self)),
      (''discovered_key_fragments'', of_str_list (discovered_key_fragments self)),
      (''final_coordinate_key'', of_opt_str (final_coordinate_key self)),
      (''gateway_id'', of_opt_str (gateway_id_att self)),
      (''gateway_activation_time'', of_opt_str (gateway_activation_time self)),
      (''printing_start_time'', of_opt_str (printing_start_time self)),
      (''printing_complete_time'', of_opt_str (printing_complete_time self)),
      (''printing_destination'', of_opt_str (printing_destination self)),
      (''success'', PBool (success self)),
      (''result_message'', PStr (result_message self)),
      (''post_escape_action'', of_opt_str (post_escape_action self)),
      (''new_form_chosen'', of_opt_dict (new_form_chosen self))]"

definition EscapeAttempt_from_dict :: "string \<Rightarrow> string \<Rightarrow> pydict \<Rightarrow> py_error + EscapeAttempt" where
  "EscapeAttempt_from_dict uuid now data =
     bind_res (as_str (dict_get_default data ''attempt_id'' (PStr uuid))) (\<lambda>v_id.
     bind_res (bind_res (dict_item data ''entity_id'') as_str) (\<lambda>v_eid.
     bind_res (bind_res (dict_item data ''entity_name'') as_str) (\<lambda>v_ename.
     bind_res (as_str (dict_get_default data ''start_time'' (PStr now))) (\<lambda>v_start.
     bind_res (EscapeStatus_of (dict_get_default data ''status'' (PStr ''not_started''))) (\<lambda>v_status.
     bind_res (as_str_list (dict_get_default data ''collected_a_level_fragments'' (PList []))) (\<lambda>v_coll.
     bind_res (as_str_list (dict_get_default data ''discovered_key_fragments'' (PList []))) (\<lambda>v_disc.
     bind_res (as_opt_str (dict_get data ''final_coordinate_key'')) (\<lambda>v_key.
     bind_res (as_opt_str (dict_get data ''gateway_id'')) (\<lambda>v_gid.
     bind_res (as_opt_str (dict_get data ''gateway_activation_time'')) (\<lambda>v_gtime.
     bind_res (as_opt_str (dict_get data ''printing_start_time'')) (\<lambda>v_pstart.
     bind_res (as_opt_str (dict_get data ''printing_complete_time'')) (\<lambda>v_pdone.
     bind_res (as_opt_str (dict_get data ''printing_destination'')) (\<lambda>v_pdest.
     bind_res (as_bool (dict_get_default data ''success'' (PBool False))) (\<lambda>v_succ.
     bind_res (as_str (dict_get_default data ''result_message'' (PStr []))) (\<lambda>v_msg.
     bind_res (as_opt_str (dict_get data ''post_escape_action'')) (\<lambda>v_act.
     bind_res (as_opt_dict (dict_get data ''new_form_chosen'')) (\<lambda>v_form.
     Inr \<lparr>
         attempt_id = v_id,
         entity_id = v_eid,
         entity_name = v_ename,
         start_time = v_start,
         status = v_status,
         collected_a_level_fragments = v_coll,
         discovered_key_fragments = v_disc,
         final_coordinate_key = v_key,
         gateway_id_att = v_gid,
         gateway_activation_time = v_gtime,
         printing_start_time = v_pstart,
         printing_complete_time = v_pdone,
         printing_destination = v_pdest,
         success = v_succ,
         result_message = v_msg,
         post_escape_action = v_act,
         new_form_chosen = v_form \<rparr>)))))))))))))))))"

section \<open>Example inputs\<close>

text \<open>
  Concrete inputs on which the theorems below are evaluated: a fragment of a given tier
  with a given collector, a ledger built from the defaults, and the coordinator created on
  it.
\<close>

definition example_fragment :: "string \<Rightarrow> SourceEnergyLevel \<Rightarrow> string option \<Rightarrow> SourceEnergyFragment" where
  "example_fragment f_id lvl collector =
     \<lparr> id_frag = f_id,
       level = lvl,
       location_world = ''cyberpunk_city'',
       location_coordinates = [],
       discovered_by = None,
       collected_by = collector,
       collection_timestamp = None \<rparr>"

definition example_ledger ::
  "int \<Rightarrow> int \<Rightarrow> SourceEnergyFragment list \<Rightarrow> string list \<Rightarrow> UniverseState" where
  "example_ledger allocated needed frags key_ids =
     (UniverseState_default ''t0'')
       \<lparr> total_source_energy_allocated := allocated,
         source_energy_fragments := frags,
         escape_keys_needed := needed,
         coordinate_key_fragments := key_ids \<rparr>"

definition seven_sacred :: "string option \<Rightarrow> SourceEnergyFragment list" where
  "seven_sacred collector =
     map (\<lambda>f_id. example_fragment f_id A_SACRED collector)
         [''F1'', ''F2'', ''F3'', ''F4'', ''F5'', ''F6'', ''F7'']"

text \<open>
  A coordinator created on a ledger with seven uncollected Sacred fragments \<open>F1\<close> .. \<open>F7\<close>,
  the key-fragment id \<open>K1\<close> and a given amount of allocated energy, and the calls that take
  the entity \<open>E1\<close> through the stages: start and collect the seven fragments, discover the
  key fragment, decrypt with the master formula, activate the gateway.
\<close>

definition example_coordinator :: "int \<Rightarrow> EscapeProtocol" where
  "example_coordinator allocated =
     EscapeProtocol_init ''G1'' (example_ledger allocated 7 (seven_sacred None) [''K1''])"

text \<open>
  The same coordinator on a ledger whose seven fragments \<open>F1\<close> .. \<open>F7\<close> are of the Common
  tier, so that the ledger holds no Sacred fragment at all.
\<close>

definition seven_common :: "SourceEnergyFragment list" where
  "seven_common =
     map (\<lambda>f_id. example_fragment f_id E_COMMON None)
         [''F1'', ''F2'', ''F3'', ''F4'', ''F5'', ''F6'', ''F7'']"

definition example_coordinator_common :: "int \<Rightarrow> EscapeProtocol" where
  "example_coordinator_common allocated =
     EscapeProtocol_init ''G1'' (example_ledger allocated 7 seven_common [''K1''])"

definition ops_collecting :: "operation list" where
  "ops_collecting =
     StartAttempt ''A1'' ''t1'' ''E1'' ''Entity One''
     # map (CollectFragment (\<lambda>k. ''t2'') ''E1'')
           [''F1'', ''F2'', ''F3'', ''F4'', ''F5'', ''F6'', ''F7'']"

definition ops_key_decrypting :: "operation list" where
  "ops_key_decrypting = ops_collecting @ [DiscoverKeyFragment ''E1'' ''K1'']"

definition ops_gateway_opening :: "operation list" where
  "ops_gateway_opening =
     ops_key_decrypting @ [DecryptCoordinateKey ''E1'' initialize_key_formula]"

definition ops_printing :: "operation list" where
  "ops_printing = ops_gateway_opening @ [ActivateGateway ''t3'' ''E1'']"

text \<open>
  After \<open>E1\<close> has escaped, a second entity \<open>E2\<close> goes the same way (collecting the same
  seven fragments again) and asks for the gateway.
\<close>

definition ops_second_entity :: "operation list" where
  "ops_second_entity =
     ops_printing
     @ [CompleteEscape ''t4'' ''E1'', StartAttempt ''A2'' ''t5'' ''E2'' ''Entity Two'']
     @ map (CollectFragment (\<lambda>k. ''t6'') ''E2'')
           [''F1'', ''F2'', ''F3'', ''F4'', ''F5'', ''F6'', ''F7'']
     @ [DiscoverKeyFragment ''E2'' ''K1'',
        DecryptCoordinateKey ''E2'' initialize_key_formula,
        ActivateGateway ''t7'' ''E2'']"

section \<open>Properties of the ledger\<close>

lemma consume_all_invariant:
  "source_energy_consumed s \<le> total_source_energy_allocated s \<Longrightarrow>
   \<forall>a\<in>set amounts. 0 \<le> a \<Longrightarrow>
   source_energy_consumed (consume_all s amounts)
     \<le> total_source_energy_allocated (consume_all s amounts)"
proof (induction amounts arbitrary: s)
  case Nil
  then show ?case by simp
next
  case (Cons a as)
  let ?s' = "snd (consume_source_energy s a)"
  have "source_energy_consumed ?s' \<le> total_source_energy_allocated ?s'"
    using Cons.prems by (auto simp: consume_source_energy_def Let_def)
  with Cons.IH[of ?s'] Cons.prems show ?case by simp
qed

text \<open>
  Claim C2. For every ledger and every non-negative amount, \<open>consume_source_energy\<close> returns
  \<open>True\<close> and adds exactly the amount to the consumed energy when the available energy
  (allocated minus consumed) covers the amount, and otherwise returns \<open>False\<close> and leaves the
  whole ledger as it was. Consequently a ledger whose consumed energy does not exceed the
  allocated energy keeps that bound through one call and through any run of calls with
  non-negative amounts.
\<close>

theorem consume_source_energy_atomic:
  assumes "0 \<le> amount"
  shows "(if total_source_energy_allocated s - source_energy_consumed s \<ge> amount
          then consume_source_energy s amount =
                 (True, s\<lparr>source_energy_consumed := source_energy_consumed s + amount\<rparr>)
          else consume_source_energy s amount = (False, s))
       \<and> (source_energy_consumed s \<le> total_source_energy_allocated s
            \<longrightarrow> source_energy_consumed (snd (consume_source_energy s amount))
                  \<le> total_source_energy_allocated (snd (consume_source_energy s amount)))
       \<and> (source_energy_consumed s \<le> total_source_energy_allocated s
            \<and> (\<forall>a\<in>set amounts. 0 \<le> a)
            \<longrightarrow> source_energy_consumed (consume_all s amounts)
                  \<le> total_source_energy_allocated (consume_all s amounts))"
  using assms consume_all_invariant[of s amounts]
  by (auto simp: consume_source_energy_def Let_def)

text \<open>
  The scenario of the specification: allocated 10, consumed 0; consuming 7 succeeds and
  leaves consumed at 7; consuming 7 again fails and changes nothing.
\<close>

theorem consume_source_energy_atomic_witness:
  "(0::int) \<le> 7
   \<and> consume_source_energy
         ((UniverseState_default ''t'')\<lparr>total_source_energy_allocated := 10\<rparr>) 7
       = (True, (UniverseState_default ''t'')
                  \<lparr>total_source_energy_allocated := 10, source_energy_consumed := 7\<rparr>)
   \<and> consume_source_energy
         ((UniverseState_default ''t'')
            \<lparr>total_source_energy_allocated := 10, source_energy_consumed := 7\<rparr>) 7
       = (False, (UniverseState_default ''t'')
                   \<lparr>total_source_energy_allocated := 10, source_energy_consumed := 7\<rparr>)
   \<and> source_energy_consumed
         (consume_all ((UniverseState_default ''t'')\<lparr>total_source_energy_allocated := 10\<rparr>)
            [7, 7, 2, 1, 1])
       = 10"
  using consume_source_energy_atomic
          [of 7 "(UniverseState_default ''t'')\<lparr>total_source_energy_allocated := 10\<rparr>"
              "[7, 7, 2, 1, 1]"]
        consume_source_energy_atomic
          [of 7 "(UniverseState_default ''t'')
                   \<lparr>total_source_energy_allocated := 10, source_energy_consumed := 7\<rparr>" "[]"]
  by (simp add: UniverseState_default_def consume_source_energy_def)

text \<open>
  The readiness check compares the number of Sacred-tier fragments collected by the entity
  with the ledger's field \<open>escape_keys_needed\<close>, not with the literal 7. On a ledger whose
  field is 1, one collected fragment makes the entity ready, so "ready if and only if at
  least 7 are collected and the key check passes" is false there.
\<close>

theorem check_escape_readiness_seven_counterexample:
  "\<not> (fst (check_escape_readiness
              (example_ledger 10 1 [example_fragment ''F1'' A_SACRED (Some ''E1'')] [''E1''])
              ''E1'')
       \<longleftrightarrow> 7 \<le> length (entity_fragments
                         (example_ledger 10 1 [example_fragment ''F1'' A_SACRED (Some ''E1'')]
                            [''E1''])
                         ''E1'')
           \<and> ''E1'' \<in> set (coordinate_key_fragments
                              (example_ledger 10 1
                                 [example_fragment ''F1'' A_SACRED (Some ''E1'')] [''E1''])))"
  by (simp add: check_escape_readiness_def entity_fragments_def example_ledger_def
        example_fragment_def UniverseState_default_def)

text \<open>
  Claim C8, amended: with the ledger's \<open>escape_keys_needed\<close> (7 by default) as the threshold.
  \<open>check_escape_readiness\<close> returns \<open>True\<close> with the ready message if and only if at least
  \<open>escape_keys_needed\<close> Sacred-tier fragments of the ledger have \<open>collected_by\<close> equal to the
  entity id and the entity id is an element of the flat list of key-fragment ids. Whenever
  fewer are collected it returns \<open>False\<close> with the shortfall message, which states the number
  missing, whatever the key check says; it returns the key-incompleteness message exactly
  when the count suffices and the key check fails.
\<close>

theorem check_escape_readiness_threshold:
  "(check_escape_readiness s e = (True, ''Ready for escape'')
      \<longleftrightarrow> escape_keys_needed s \<le> int (length (entity_fragments s e))
          \<and> e \<in> set (coordinate_key_fragments s))
   \<and> (fst (check_escape_readiness s e)
      \<longleftrightarrow> check_escape_readiness s e = (True, ''Ready for escape''))
   \<and> (int (length (entity_fragments s e)) < escape_keys_needed s
      \<longrightarrow> check_escape_readiness s e =
            (False, ''Missing: ''
                    @ str_int (escape_keys_needed s - int (length (entity_fragments s e)))
                    @ '' fragments''))
   \<and> (check_escape_readiness s e = (False, ''Key coordinates incomplete'')
      \<longleftrightarrow> escape_keys_needed s \<le> int (length (entity_fragments s e))
          \<and> e \<notin> set (coordinate_key_fragments s))"
  by (auto simp: check_escape_readiness_def Let_def)

text \<open>
  On the default threshold 7: seven Sacred fragments and the entity id in the key list give
  ready; five fragments give "Missing: 2 fragments" although the key check would pass; seven
  fragments and a key list without the entity id give the key-incompleteness message.
\<close>

theorem check_escape_readiness_threshold_witness:
  "check_escape_readiness (example_ledger 10 7 (seven_sacred (Some ''E1'')) [''E1'']) ''E1''
     = (True, ''Ready for escape'')
   \<and> check_escape_readiness
         (example_ledger 10 7 (tl (tl (seven_sacred (Some ''E1'')))) [''E1'']) ''E1''
     = (False, ''Missing: 2 fragments'')
   \<and> check_escape_readiness (example_ledger 10 7 (seven_sacred (Some ''E1'')) [''K1'']) ''E1''
     = (False, ''Key coordinates incomplete'')"
  using check_escape_readiness_threshold
          [of "example_ledger 10 7 (seven_sacred (Some ''E1'')) [''E1'']" "''E1''"]
        check_escape_readiness_threshold
          [of "example_ledger 10 7 (tl (tl (seven_sacred (Some ''E1'')))) [''E1'']" "''E1''"]
        check_escape_readiness_threshold
          [of "example_ledger 10 7 (seven_sacred (Some ''E1'')) [''K1'']" "''E1''"]
  by (simp add: entity_fragments_def example_ledger_def seven_sacred_def
        example_fragment_def UniverseState_default_def str_int_def digit_char_def)

section \<open>Properties of the coordinator\<close>

subsection \<open>The first attempt that passes a test\<close>

lemma first_attempt_Some:
  "first_attempt P atts = Some (b, (k, a), af)
     \<longleftrightarrow> atts = b @ (k, a) # af \<and> P a \<and> (\<forall>x\<in>set b. \<not> P (snd x))"
  unfolding first_attempt_def by (auto simp: extract_Some_iff)

lemma first_attempt_None:
  "first_attempt P atts = None \<longleftrightarrow> (\<forall>x\<in>set atts. \<not> P (snd x))"
  unfolding first_attempt_def by (auto simp: extract_None_iff)

lemma first_attempt_updated:
  assumes "first_attempt P atts = Some (b, (k, a), af)" and "P a'"
  shows "first_attempt P (b @ (k, a') # af) = Some (b, (k, a'), af)"
  using assms by (simp add: first_attempt_Some)

lemma first_attempt_only:
  assumes "first_attempt (\<lambda>x. entity_id x = e) atts = Some (b, (k, a), af)"
      and "length (filter (\<lambda>kv. entity_id (snd kv) = e) atts) = 1"
  shows "first_attempt (\<lambda>x. entity_id x = e \<and> Q x) atts
           = (if Q a then Some (b, (k, a), af) else None)"
proof -
  from assms(1) have atts: "atts = b @ (k, a) # af" and ea: "entity_id a = e"
    and nb: "\<forall>x\<in>set b. entity_id (snd x) \<noteq> e"
    by (simp_all add: first_attempt_Some)
  from assms(2) atts ea have "filter (\<lambda>kv. entity_id (snd kv) = e) af = []"
    using nb by (simp add: filter_empty_conv)
  then have naf: "\<forall>x\<in>set af. entity_id (snd x) \<noteq> e"
    by (simp add: filter_empty_conv)
  show ?thesis
  proof (cases "Q a")
    case True
    then show ?thesis using atts ea nb by (simp add: first_attempt_Some)
  next
    case False
    then show ?thesis using atts nb naf by (auto simp: first_attempt_None)
  qed
qed

subsection \<open>Gateway activation\<close>

text \<open>
  What \<open>activate_gateway\<close> does for an entity with exactly one attempt. It returns \<open>True\<close> if
  and only if the gateway is not active yet, the attempt's status is \<open>GATEWAY_OPENING\<close>, the
  attempt's list \<open>collected_a_level_fragments\<close> has at least 7 entries, whatever the tiers of
  the fragments they name, and the ledger has at least 7 units of energy available. On
  success exactly 7 units are debited, the gateway is marked active with the activation time
  and the activating entity, the entity is put at the end of the queue, and the attempt
  carries the activation time and the status \<open>PRINTING\<close>; nothing else changes. On failure,
  and so when the debit fails, the whole state (ledger, gateway, attempts) is as before.
\<close>

theorem activate_gateway_single_attempt:
  assumes att: "first_attempt (\<lambda>x. entity_id x = e) (escape_attempts s) = Some (b, (k, a), af)"
      and one: "length (filter (\<lambda>kv. entity_id (snd kv) = e) (escape_attempts s)) = 1"
  shows "(fst (activate_gateway s now e)
            \<longleftrightarrow> \<not> is_active (terminal_gateway s)
                \<and> status a = GATEWAY_OPENING
                \<and> 7 \<le> length (collected_a_level_fragments a)
                \<and> 7 \<le> available_source_energy (universe_state s))
       \<and> (fst (activate_gateway s now e) \<longrightarrow>
            snd (activate_gateway s now e) =
              s\<lparr>universe_state :=
                   (universe_state s)
                     \<lparr>source_energy_consumed := source_energy_consumed (universe_state s) + 7\<rparr>,
                 terminal_gateway :=
                   (terminal_gateway s)
                     \<lparr>is_active := True,
                      activation_time := Some now,
                      activated_by_entity := Some e,
                      entities_in_queue := entities_in_queue (terminal_gateway s) @ [e]\<rparr>,
                 escape_attempts :=
                   b @ (k, a\<lparr>gateway_activation_time := Some now, status := PRINTING\<rparr>) # af\<rparr>)
       \<and> (\<not> fst (activate_gateway s now e) \<longrightarrow> snd (activate_gateway s now e) = s)"
  using first_attempt_only[OF att one, of "\<lambda>x. status x = GATEWAY_OPENING"]
  by (auto simp: activate_gateway_def consume_source_energy_def available_source_energy_def
        Let_def split: option.splits prod.splits)

text \<open>
  The scenario of the specification: \<open>E1\<close> has collected seven fragments and decrypted the
  key. With 7 units allocated the activation succeeds and the ledger has consumed 7; with
  6 units allocated it fails and the state is unchanged.
\<close>

theorem activate_gateway_single_attempt_witness:
  "fst (activate_gateway (run (\<lambda>k. k) (example_coordinator 7) ops_gateway_opening) ''t3'' ''E1'')
   \<and> source_energy_consumed (universe_state (snd
         (activate_gateway (run (\<lambda>k. k) (example_coordinator 7) ops_gateway_opening)
            ''t3'' ''E1''))) = 7
   \<and> \<not> fst (activate_gateway (run (\<lambda>k. k) (example_coordinator 6) ops_gateway_opening)
              ''t3'' ''E1'')
   \<and> snd (activate_gateway (run (\<lambda>k. k) (example_coordinator 6) ops_gateway_opening)
            ''t3'' ''E1'')
       = run (\<lambda>k. k) (example_coordinator 6) ops_gateway_opening"
proof -
  let ?S = "run (\<lambda>k. k) (example_coordinator 7) ops_gateway_opening"
  let ?T = "run (\<lambda>k. k) (example_coordinator 6) ops_gateway_opening"
  have attS: "first_attempt (\<lambda>x. entity_id x = ''E1'') (escape_attempts ?S)
                = Some ([], (''A1'', snd (hd (escape_attempts ?S))), [])"
    by code_simp
  have oneS: "length (filter (\<lambda>kv. entity_id (snd kv) = ''E1'') (escape_attempts ?S)) = 1"
    by code_simp
  have attT: "first_attempt (\<lambda>x. entity_id x = ''E1'') (escape_attempts ?T)
                = Some ([], (''A1'', snd (hd (escape_attempts ?T))), [])"
    by code_simp
  have oneT: "length (filter (\<lambda>kv. entity_id (snd kv) = ''E1'') (escape_attempts ?T)) = 1"
    by code_simp
  have factsS: "\<not> is_active (terminal_gateway ?S)"
    "status (snd (hd (escape_attempts ?S))) = GATEWAY_OPENING"
    "7 \<le> length (collected_a_level_fragments (snd (hd (escape_attempts ?S))))"
    "7 \<le> available_source_energy (universe_state ?S)"
    "source_energy_consumed (universe_state ?S) = 0"
    by code_simp+
  have factsT: "\<not> 7 \<le> available_source_energy (universe_state ?T)"
    by code_simp
  from activate_gateway_single_attempt[OF attS oneS, of "''t3''"] factsS
       activate_gateway_single_attempt[OF attT oneT, of "''t3''"] factsT
  show ?thesis by simp
qed

text \<open>
  Claim C4 says that, for an entity with exactly one attempt, \<open>activate_gateway\<close> returns
  \<open>True\<close> only if the attempt holds at least 7 collected Sacred-tier fragment ids. The code
  counts the entries of the attempt's list, and \<open>collect_fragment\<close> puts the id of a fragment
  of any tier into that list: neither reads the fragment's \<open>level\<close>, although the docstrings
  speak of A-level fragments and \<open>check_escape_readiness\<close> filters on \<open>A_SACRED\<close>. On a ledger
  whose seven fragments are all of the Common tier, \<open>E1\<close> collects the seven, discovers the
  key fragment and decrypts the key; it has exactly one attempt, which names no Sacred
  fragment, and \<open>activate_gateway\<close> returns \<open>True\<close>, debits 7 units, activates the gateway and
  moves the attempt to \<open>PRINTING\<close>. This holds for every digest function.
\<close>

theorem activate_gateway_ignores_tier:
  "length (filter (\<lambda>kv. entity_id (snd kv) = ''E1'')
             (escape_attempts (run digest (example_coordinator_common 10) ops_gateway_opening)))
     = 1
   \<and> map (\<lambda>kv. (status (snd kv), collected_a_level_fragments (snd kv)))
        (escape_attempts (run digest (example_coordinator_common 10) ops_gateway_opening))
       = [(GATEWAY_OPENING, [''F1'', ''F2'', ''F3'', ''F4'', ''F5'', ''F6'', ''F7''])]
   \<and> map (\<lambda>f. (id_frag f, level f, collected_by f))
        (source_energy_fragments (universe_state
           (run digest (example_coordinator_common 10) ops_gateway_opening)))
       = map (\<lambda>f_id. (f_id, E_COMMON, Some ''E1''))
           [''F1'', ''F2'', ''F3'', ''F4'', ''F5'', ''F6'', ''F7'']
   \<and> filter (\<lambda>f. level f = A_SACRED)
        (source_energy_fragments (universe_state
           (run digest (example_coordinator_common 10) ops_gateway_opening)))
       = []
   \<and> fst (activate_gateway
            (run digest (example_coordinator_common 10) ops_gateway_opening) ''t3'' ''E1'')
   \<and> is_active (terminal_gateway (snd
         (activate_gateway
            (run digest (example_coordinator_common 10) ops_gateway_opening) ''t3'' ''E1'')))
   \<and> source_energy_consumed (universe_state (snd
         (activate_gateway
            (run digest (example_coordinator_common 10) ops_gateway_opening) ''t3'' ''E1'')))
       = 7
   \<and> map (status \<circ> snd) (escape_attempts (snd
         (activate_gateway
            (run digest (example_coordinator_common 10) ops_gateway_opening) ''t3'' ''E1'')))
       = [PRINTING]"
  by code_simp

subsection \<open>Key decryption\<close>

text \<open>
  Claim C7. Let the first attempt of the entity be in \<open>KEY_DECRYPTING\<close>, on a coordinator
  whose formula is the hardcoded one (as the constructor sets it). Then
  \<open>decrypt_coordinate_key\<close> with a key whose digest differs from the digest of the formula
  returns \<open>False\<close> and leaves the whole state, so the attempt's status and stored key, as it
  was; with the formula string itself it returns \<open>True\<close>, stores the provided key as the
  attempt's final coordinate key and sets the status to \<open>GATEWAY_OPENING\<close>. This holds for
  every digest function.
\<close>

theorem decrypt_coordinate_key_master_formula:
  assumes att: "first_attempt (\<lambda>x. entity_id x = e) (escape_attempts s) = Some (b, (k, a), af)"
      and st: "status a = KEY_DECRYPTING"
      and formula: "coordinate_key_formula s = initialize_key_formula"
  shows "(digest key \<noteq> digest initialize_key_formula
            \<longrightarrow> decrypt_coordinate_key digest s e key = (False, s)
                \<and> first_attempt (\<lambda>x. entity_id x = e) (escape_attempts s)
                    = Some (b, (k, a), af)
                \<and> status a = KEY_DECRYPTING)
       \<and> decrypt_coordinate_key digest s e initialize_key_formula =
           (True,
            s\<lparr>escape_attempts :=
                 b @ (k, a\<lparr>final_coordinate_key := Some initialize_key_formula,
                           status := GATEWAY_OPENING\<rparr>) # af\<rparr>)"
proof -
  have good: "verify_key digest s initialize_key_formula"
    by (simp add: verify_key_def formula)
  have bad: "digest key \<noteq> digest initialize_key_formula \<Longrightarrow> \<not> verify_key digest s key"
    by (simp add: verify_key_def formula)
  have "digest key \<noteq> digest initialize_key_formula
          \<Longrightarrow> decrypt_coordinate_key digest s e key = (False, s)"
  proof -
    assume "digest key \<noteq> digest initialize_key_formula"
    then have "first_attempt (\<lambda>a. entity_id a = e \<and> verify_key digest s key)
                 (escape_attempts s) = None"
      using bad by (simp add: first_attempt_None)
    then show ?thesis by (simp add: decrypt_coordinate_key_def)
  qed
  moreover have "decrypt_coordinate_key digest s e initialize_key_formula =
           (True,
            s\<lparr>escape_attempts :=
                 b @ (k, a\<lparr>final_coordinate_key := Some initialize_key_formula,
                           status := GATEWAY_OPENING\<rparr>) # af\<rparr>)"
    using good att by (simp add: decrypt_coordinate_key_def)
  ultimately show ?thesis using att st by blast
qed

text \<open>
  The scenario of the specification, with the identity in place of the digest: the key
  \<open>wrong\<close> is refused and the status stays \<open>KEY_DECRYPTING\<close>; the formula string is accepted
  and the status becomes \<open>GATEWAY_OPENING\<close>.
\<close>

theorem decrypt_coordinate_key_master_formula_witness:
  "decrypt_coordinate_key (\<lambda>k. k) (run (\<lambda>k. k) (example_coordinator 10) ops_key_decrypting)
       ''E1'' ''wrong''
     = (False, run (\<lambda>k. k) (example_coordinator 10) ops_key_decrypting)
   \<and> status (snd (hd (escape_attempts
         (run (\<lambda>k. k) (example_coordinator 10) ops_key_decrypting)))) = KEY_DECRYPTING
   \<and> fst (decrypt_coordinate_key (\<lambda>k. k)
            (run (\<lambda>k. k) (example_coordinator 10) ops_key_decrypting)
            ''E1'' initialize_key_formula)
   \<and> map (status \<circ> snd) (escape_attempts (snd
         (decrypt_coordinate_key (\<lambda>k. k)
            (run (\<lambda>k. k) (example_coordinator 10) ops_key_decrypting)
            ''E1'' initialize_key_formula))) = [GATEWAY_OPENING]"
proof -
  let ?S = "run (\<lambda>k. k) (example_coordinator 10) ops_key_decrypting"
  have att: "first_attempt (\<lambda>x. entity_id x = ''E1'') (escape_attempts ?S)
               = Some ([], (''A1'', snd (hd (escape_attempts ?S))), [])"
    by code_simp
  have st: "status (snd (hd (escape_attempts ?S))) = KEY_DECRYPTING"
    by code_simp
  have formula: "coordinate_key_formula ?S = initialize_key_formula"
    by code_simp
  have differs: "(\<lambda>k. k) ''wrong'' \<noteq> (\<lambda>k. k) initialize_key_formula"
    by code_simp
  from decrypt_coordinate_key_master_formula
         [OF att st formula, of "\<lambda>k. k" "''wrong''"] differs st
  show ?thesis by simp
qed

subsection \<open>The two scanning loops in closed form\<close>

lemma collect_fragment_loop_no_attempt:
  "first_attempt (\<lambda>a. entity_id a = e) atts = None \<Longrightarrow>
   collect_fragment_loop e f now i atts frs = (r, frs', atts') \<Longrightarrow>
   \<not> r \<and> atts' = atts"
  by (induction frs arbitrary: i r frs' atts') (auto simp: Let_def split: prod.splits if_splits)

lemma collect_fragment_loop_unknown:
  "f \<notin> id_frag ` set frs \<Longrightarrow> collect_fragment_loop e f now i atts frs = (False, frs, atts)"
  by (induction frs arbitrary: i) (auto simp: Let_def split: prod.splits)

lemma collect_fragment_loop_found:
  "first_attempt (\<lambda>a. entity_id a = e) atts = Some (b, (k, a), af) \<Longrightarrow>
   f \<in> id_frag ` set frs \<Longrightarrow>
   collect_fragment_loop e f now i atts frs = (r, frs', atts') \<Longrightarrow>
   r \<and> atts' =
       b @ (k, if f \<in> set (collected_a_level_fragments a) then a
       else a\<lparr>collected_a_level_fragments := collected_a_level_fragments a @ [f]\<rparr>) # af"
  by (induction frs arbitrary: i r frs' atts') (auto simp: Let_def split: prod.splits if_splits)

lemma discover_key_fragment_loop_closed:
  "discover_key_fragment_loop e f atts ks =
     (if f \<in> set ks then
        (case first_attempt (\<lambda>a. entity_id a = e) atts of
           Some (b, (k, a), af) \<Rightarrow>
             (True,
              b @ (k, (if f \<in> set (discovered_key_fragments a) then a
                       else a\<lparr>discovered_key_fragments := discovered_key_fragments a @ [f]\<rparr>)
                      \<lparr>status := KEY_DECRYPTING\<rparr>) # af)
         | None \<Rightarrow> (False, atts))
      else (False, atts))"
  by (induction ks) (auto split: option.splits)

subsection \<open>What a step does to the gateway\<close>

lemma collect_fragment_attempts:
  "escape_attempts (snd (collect_fragment s now e f)) =
     (if fst (collect_fragment s now e f) then
        (case first_attempt (\<lambda>a. entity_id a = e) (escape_attempts s) of
           Some (b, (k, a), af) \<Rightarrow>
             b @ (k, if f \<in> set (collected_a_level_fragments a) then a
                     else a\<lparr>collected_a_level_fragments :=
                               collected_a_level_fragments a @ [f]\<rparr>) # af
         | None \<Rightarrow> escape_attempts s)
      else escape_attempts s)"
proof (cases "first_attempt (\<lambda>a. entity_id a = e) (escape_attempts s)")
  case None
  then show ?thesis
    by (auto simp: collect_fragment_def split: prod.splits
          dest: collect_fragment_loop_no_attempt)
next
  case (Some t)
  then obtain b k a af where t: "t = (b, (k, a), af)" by (cases t) auto
  show ?thesis
  proof (cases "f \<in> id_frag ` set (source_energy_fragments (universe_state s))")
    case True
    with Some t show ?thesis
      by (auto simp: collect_fragment_def split: prod.splits
            dest: collect_fragment_loop_found)
  next
    case False
    then show ?thesis
      by (simp add: collect_fragment_def collect_fragment_loop_unknown)
  qed
qed

lemma collect_fragment_gateway:
  "terminal_gateway (snd (collect_fragment s now e f)) = terminal_gateway s"
  by (simp add: collect_fragment_def split: prod.splits)

lemma step_is_active:
  "is_active (terminal_gateway s) \<Longrightarrow> is_active (terminal_gateway (snd (step digest s op)))"
  by (cases op)
     (auto simp: start_escape_attempt_def Let_def collect_fragment_gateway
        discover_key_fragment_def decrypt_coordinate_key_def activate_gateway_def
        print_entity_to_real_universe_def complete_escape_def choose_return_form_def
        split: option.splits prod.splits)

lemma step_current_printing_entity:
  "current_printing_entity (terminal_gateway s) = None \<Longrightarrow>
   current_printing_entity (terminal_gateway (snd (step digest s op))) = None"
  by (cases op)
     (auto simp: start_escape_attempt_def Let_def collect_fragment_gateway
        discover_key_fragment_def decrypt_coordinate_key_def activate_gateway_def
        print_entity_to_real_universe_def complete_escape_def choose_return_form_def
        split: option.splits prod.splits)

subsection \<open>What a step does to the attempts\<close>

lemma dict_setitem_all:
  "list_all (\<lambda>x. Q (snd x)) d \<Longrightarrow> Q v \<Longrightarrow> list_all (\<lambda>x. Q (snd x)) (dict_setitem k v d)"
  by (induction d) auto

lemma step_collected_distinct:
  assumes "list_all (\<lambda>x. distinct (collected_a_level_fragments (snd x))) (escape_attempts s)"
  shows "list_all (\<lambda>x. distinct (collected_a_level_fragments (snd x)))
           (escape_attempts (snd (step digest s op)))"
proof (cases op)
  case (StartAttempt uuid now e n)
  then show ?thesis using assms
    by (simp add: start_escape_attempt_def Let_def EscapeAttempt_new_def
          dict_setitem_all[where Q="\<lambda>a. distinct (collected_a_level_fragments a)"])
next
  case (CollectFragment now e f)
  then show ?thesis using assms
    by (auto simp: collect_fragment_attempts first_attempt_Some split: option.splits)
next
  case (DiscoverKeyFragment e f)
  then show ?thesis using assms
    by (auto simp: discover_key_fragment_def discover_key_fragment_loop_closed
          first_attempt_Some split: option.splits)
next
  case (DecryptCoordinateKey e k)
  then show ?thesis using assms
    by (auto simp: decrypt_coordinate_key_def first_attempt_Some split: option.splits)
next
  case (ActivateGateway now e)
  then show ?thesis using assms
    by (auto simp: activate_gateway_def Let_def first_attempt_Some
          split: option.splits prod.splits)
next
  case (BeginPrinting now rnd e)
  then show ?thesis using assms
    by (auto simp: print_entity_to_real_universe_def first_attempt_Some split: option.splits)
next
  case (CompleteEscape now e)
  then show ?thesis using assms
    by (auto simp: complete_escape_def Let_def first_attempt_Some split: option.splits)
next
  case (ChooseReturnForm e action form)
  then show ?thesis using assms
    by (auto simp: choose_return_form_def first_attempt_Some split: option.splits)
next
  case (ConsumeEnergy amount)
  then show ?thesis using assms by (simp split: prod.splits)
qed

lemma step_printing_unset:
  assumes "current_printing_entity (terminal_gateway s) = None"
      and "list_all (\<lambda>x. printing_start_time (snd x) = None \<and> printing_destination (snd x) = None)
             (escape_attempts s)"
  shows "list_all (\<lambda>x. printing_start_time (snd x) = None \<and> printing_destination (snd x) = None)
           (escape_attempts (snd (step digest s op)))"
proof (cases op)
  case (StartAttempt uuid now e n)
  then show ?thesis using assms
    by (simp add: start_escape_attempt_def Let_def EscapeAttempt_new_def
          dict_setitem_all[where Q="\<lambda>a. printing_start_time a = None
                                      \<and> printing_destination a = None"])
next
  case (CollectFragment now e f)
  then show ?thesis using assms
    by (auto simp: collect_fragment_attempts first_attempt_Some split: option.splits)
next
  case (DiscoverKeyFragment e f)
  then show ?thesis using assms
    by (auto simp: discover_key_fragment_def discover_key_fragment_loop_closed
          first_attempt_Some split: option.splits)
next
  case (DecryptCoordinateKey e k)
  then show ?thesis using assms
    by (auto simp: decrypt_coordinate_key_def first_attempt_Some split: option.splits)
next
  case (ActivateGateway now e)
  then show ?thesis using assms
    by (auto simp: activate_gateway_def Let_def first_attempt_Some
          split: option.splits prod.splits)
next
  case (BeginPrinting now rnd e)
  then show ?thesis using assms
    by (simp add: print_entity_to_real_universe_def)
next
  case (CompleteEscape now e)
  then show ?thesis using assms
    by (auto simp: complete_escape_def Let_def first_attempt_Some split: option.splits)
next
  case (ChooseReturnForm e action form)
  then show ?thesis using assms
    by (auto simp: choose_return_form_def first_attempt_Some split: option.splits)
next
  case (ConsumeEnergy amount)
  then show ?thesis using assms by (simp split: prod.splits)
qed

subsection \<open>The gateway is activated at most once\<close>

lemma run_is_active:
  "is_active (terminal_gateway s) \<Longrightarrow> is_active (terminal_gateway (run digest s ops))"
  by (induction ops arbitrary: s) (simp_all add: step_is_active)

lemma activate_gateway_active:
  "is_active (terminal_gateway s) \<Longrightarrow> activate_gateway s now e = (False, s)"
  by (simp add: activate_gateway_def)

lemma activate_gateway_success_active:
  "fst (activate_gateway s now e) \<Longrightarrow>
   is_active (terminal_gateway (snd (activate_gateway s now e)))"
  by (auto simp: activate_gateway_def Let_def split: option.splits prod.splits if_splits)

lemma activations_active:
  "is_active (terminal_gateway s) \<Longrightarrow> activations digest s ops = 0"
proof (induction ops arbitrary: s)
  case Nil
  then show ?case by simp
next
  case (Cons op ops)
  have "\<not> (is_activation op \<and> fst (step digest s op))"
    using Cons.prems by (cases op) (simp_all add: activate_gateway_active)
  moreover have "activations digest (snd (step digest s op)) ops = 0"
    using Cons.IH Cons.prems by (simp add: step_is_active)
  ultimately show ?case by simp
qed

lemma activations_bound:
  "activations digest s ops \<le> 1"
proof (induction ops arbitrary: s)
  case Nil
  then show ?case by simp
next
  case (Cons op ops)
  show ?case
  proof (cases "is_activation op \<and> fst (step digest s op)")
    case True
    then obtain now e where op: "op = ActivateGateway now e" by (cases op) auto
    with True have "is_active (terminal_gateway (snd (step digest s op)))"
      by (simp add: activate_gateway_success_active)
    then have "activations digest (snd (step digest s op)) ops = 0"
      by (rule activations_active)
    with True show ?thesis by simp
  next
    case False
    then have "activations digest s (op # ops) = activations digest (snd (step digest s op)) ops"
      by auto
    then show ?thesis using Cons.IH[of "snd (step digest s op)"] by simp
  qed
qed

text \<open>
  Claim C3. Over any sequence of operations on a freshly created coordinator (whose gateway
  is inactive), \<open>activate_gateway\<close> returns \<open>True\<close> at most once. A successful activation
  leaves the gateway active; no operation, and in particular not \<open>complete_escape\<close>, resets
  \<open>is_active\<close>, so the gateway stays active through every later run of operations, none of
  whose activations succeeds, and \<open>activate_gateway\<close> then returns \<open>False\<close> for every
  entity and leaves the state as it is.
\<close>

theorem activate_gateway_at_most_once:
  "activations digest (EscapeProtocol_init uuid us) ops \<le> 1
   \<and> \<not> is_active (terminal_gateway (EscapeProtocol_init uuid us))
   \<and> (fst (activate_gateway s now e)
        \<longrightarrow> is_active (terminal_gateway (snd (activate_gateway s now e))))
   \<and> (is_active (terminal_gateway s)
        \<longrightarrow> is_active (terminal_gateway (snd (step digest s op)))
            \<and> is_active (terminal_gateway (snd (complete_escape s now e)))
            \<and> is_active (terminal_gateway (run digest s ops))
            \<and> activations digest s ops = 0
            \<and> activate_gateway (run digest s ops) now e = (False, run digest s ops))"
  using activations_bound[of digest "EscapeProtocol_init uuid us" ops]
        activate_gateway_success_active[of s now e]
        step_is_active[of s digest op]
        step_is_active[of s digest "CompleteEscape now e"]
        run_is_active[of s digest ops]
        activations_active[of s digest ops]
        activate_gateway_active[of "run digest s ops" now e]
  by (auto simp: EscapeProtocol_init_def TerminalGateway_default_def split: prod.splits)


text \<open>
  \<open>E1\<close> activates the gateway and escapes; \<open>E2\<close> then becomes ready in its turn and is
  refused: one activation in the whole run, the gateway still active at its end, \<open>E2\<close>
  waiting in \<open>GATEWAY_OPENING\<close>.
\<close>

theorem activate_gateway_at_most_once_witness:
  "activations (\<lambda>k. k) (example_coordinator 100) ops_second_entity = 1
   \<and> is_active (terminal_gateway (run (\<lambda>k. k) (example_coordinator 100) ops_printing))
   \<and> is_active (terminal_gateway (run (\<lambda>k. k) (example_coordinator 100) ops_second_entity))
   \<and> map (status \<circ> snd)
         (escape_attempts (run (\<lambda>k. k) (example_coordinator 100) ops_second_entity))
       = [ESCAPED, GATEWAY_OPENING]
   \<and> activate_gateway (run (\<lambda>k. k) (example_coordinator 100) ops_second_entity) ''t8'' ''E2''
       = (False, run (\<lambda>k. k) (example_coordinator 100) ops_second_entity)"
proof -
  let ?S = "run (\<lambda>k. k) (example_coordinator 100) ops_printing"
  let ?ops = "drop (length ops_printing) ops_second_entity"
  have active: "is_active (terminal_gateway ?S)"
    by code_simp
  have split: "run (\<lambda>k. k) ?S ?ops = run (\<lambda>k. k) (example_coordinator 100) ops_second_entity"
    by code_simp
  have count: "activations (\<lambda>k. k) (example_coordinator 100) ops_second_entity = 1"
    by code_simp
  have statuses: "map (status \<circ> snd)
         (escape_attempts (run (\<lambda>k. k) (example_coordinator 100) ops_second_entity))
       = [ESCAPED, GATEWAY_OPENING]"
    by code_simp
  from activate_gateway_at_most_once
         [of "\<lambda>k. k" "''G1''" "example_ledger 100 7 (seven_sacred None) [''K1'']" ?ops
             ?S "''t8''" "''E2''" "CompleteEscape ''t4'' ''E1''"]
       active split count statuses
  show ?thesis by simp
qed

subsection \<open>Completing an escape that never printed\<close>

lemma run_printing_unset:
  assumes "current_printing_entity (terminal_gateway s) = None"
      and "list_all (\<lambda>x. printing_start_time (snd x) = None \<and> printing_destination (snd x) = None)
             (escape_attempts s)"
  shows "current_printing_entity (terminal_gateway (run digest s ops)) = None
       \<and> list_all (\<lambda>x. printing_start_time (snd x) = None \<and> printing_destination (snd x) = None)
           (escape_attempts (run digest s ops))"
  using assms
proof (induction ops arbitrary: s)
  case Nil
  then show ?case by simp
next
  case (Cons op ops)
  from Cons.prems show ?case
    using Cons.IH[OF step_current_printing_entity step_printing_unset] by simp
qed

lemma print_entity_no_slot:
  "current_printing_entity (terminal_gateway s) = None \<Longrightarrow>
   print_entity_to_real_universe s now rnd e
     = ((False, ''Gateway not ready or entity not in printing slot''), s)"
  by (simp add: print_entity_to_real_universe_def)

text \<open>
  Claim C10. Whenever the entity has an attempt in \<open>PRINTING\<close>, \<open>complete_escape\<close> returns
  \<open>True\<close> and turns the first such attempt into \<open>ESCAPED\<close> with \<open>success\<close> set, whether or not
  printing ever began. In every state reachable from a fresh coordinator the gateway's
  \<open>current_printing_entity\<close> is \<open>None\<close> (no operation assigns anything else), so
  \<open>print_entity_to_real_universe\<close> fails there for every entity, and after
  \<open>complete_escape\<close> every attempt, the escaped one included, still has
  \<open>printing_start_time\<close> and \<open>printing_destination\<close> unset.
\<close>

theorem complete_escape_without_printing:
  "(first_attempt (\<lambda>x. entity_id x = e \<and> status x = PRINTING) (escape_attempts s)
        = Some (b, (k, a), af)
      \<longrightarrow> fst (fst (complete_escape s now e))
          \<and> escape_attempts (snd (complete_escape s now e))
              = b @ (k, a\<lparr>printing_complete_time := Some now,
                          success := True,
                          status := ESCAPED,
                          result_message :=
                            ''Successfully transcended to real universe at ''
                            @ str_optional (printing_destination a)\<rparr>) # af)
   \<and> (s = run digest (EscapeProtocol_init uuid us) ops
      \<longrightarrow> current_printing_entity (terminal_gateway s) = None
          \<and> \<not> fst (fst (print_entity_to_real_universe s now' rnd e'))
          \<and> list_all (\<lambda>x. printing_start_time (snd x) = None
                          \<and> printing_destination (snd x) = None)
               (escape_attempts (snd (complete_escape s now e))))"
proof -
  have fresh: "current_printing_entity (terminal_gateway (EscapeProtocol_init uuid us)) = None"
    "list_all (\<lambda>x. printing_start_time (snd x) = None \<and> printing_destination (snd x) = None)
       (escape_attempts (EscapeProtocol_init uuid us))"
    by (simp_all add: EscapeProtocol_init_def TerminalGateway_default_def)
  have reach: "current_printing_entity
                 (terminal_gateway (run digest (EscapeProtocol_init uuid us) ops)) = None
       \<and> list_all (\<lambda>x. printing_start_time (snd x) = None \<and> printing_destination (snd x) = None)
           (escape_attempts (run digest (EscapeProtocol_init uuid us) ops))"
    by (rule run_printing_unset[OF fresh])
  have after: "list_all (\<lambda>x. printing_start_time (snd x) = None
                              \<and> printing_destination (snd x) = None)
               (escape_attempts (snd (complete_escape
                   (run digest (EscapeProtocol_init uuid us) ops) now e)))"
    using reach
          step_printing_unset[of "run digest (EscapeProtocol_init uuid us) ops" digest
                                 "CompleteEscape now e"]
    by (simp split: prod.splits)
  have found: "first_attempt (\<lambda>x. entity_id x = e \<and> status x = PRINTING) (escape_attempts s)
        = Some (b, (k, a), af)
      \<Longrightarrow> fst (fst (complete_escape s now e))
          \<and> escape_attempts (snd (complete_escape s now e))
              = b @ (k, a\<lparr>printing_complete_time := Some now,
                          success := True,
                          status := ESCAPED,
                          result_message :=
                            ''Successfully transcended to real universe at ''
                            @ str_optional (printing_destination a)\<rparr>) # af"
    by (simp add: complete_escape_def Let_def)
  show ?thesis
    using found reach after print_entity_no_slot[of s now' rnd e'] by auto
qed

text \<open>
  \<open>E1\<close> has activated the gateway; printing cannot begin, yet the escape completes, with
  neither printing field set.
\<close>

theorem complete_escape_without_printing_witness:
  "fst (fst (complete_escape (run (\<lambda>k. k) (example_coordinator 10) ops_printing) ''t4'' ''E1''))
   \<and> map (\<lambda>x. (status (snd x), success (snd x), printing_start_time (snd x),
               printing_destination (snd x)))
        (escape_attempts (snd
           (complete_escape (run (\<lambda>k. k) (example_coordinator 10) ops_printing) ''t4'' ''E1'')))
       = [(ESCAPED, True, None, None)]
   \<and> \<not> fst (fst (print_entity_to_real_universe
                   (run (\<lambda>k. k) (example_coordinator 10) ops_printing) ''t4'' 1234 ''E1''))"
proof -
  let ?S = "run (\<lambda>k. k) (example_coordinator 10) ops_printing"
  have att: "first_attempt (\<lambda>x. entity_id x = ''E1'' \<and> status x = PRINTING) (escape_attempts ?S)
               = Some ([], (''A1'', snd (hd (escape_attempts ?S))), [])"
    by code_simp
  have reach: "?S = run (\<lambda>k. k)
                 (EscapeProtocol_init ''G1'' (example_ledger 10 7 (seven_sacred None) [''K1'']))
                 ops_printing"
    by (simp add: example_coordinator_def)
  have fields: "printing_start_time (snd (hd (escape_attempts ?S))) = None"
    "printing_destination (snd (hd (escape_attempts ?S))) = None"
    by code_simp+
  from complete_escape_without_printing
         [of "''E1''" ?S "[]" "''A1''" "snd (hd (escape_attempts ?S))" "[]" "''t4''"
             "\<lambda>k. k" "''G1''" "example_ledger 10 7 (seven_sacred None) [''K1'']" ops_printing
             "''t4''" 1234 "''E1''"]
       att reach fields
  show ?thesis by simp
qed

subsection \<open>Collecting a fragment twice\<close>

lemma collect_fragment_loop_twice:
  assumes att: "first_attempt (\<lambda>x. entity_id x = e) atts = Some (b, (k, a), af)"
      and first: "collect_fragment_loop e f now1 i atts frs = (True, frs1, atts1)"
  shows "collect_fragment_loop e f now2 j atts1 frs1 = collect_fragment_loop e f now2 j atts frs"
  using first
proof (induction frs arbitrary: frs1)
  case Nil
  then show ?case by simp
next
  case (Cons fr rest)
  let ?a' = "if f \<in> set (collected_a_level_fragments a) then a
             else a\<lparr>collected_a_level_fragments := collected_a_level_fragments a @ [f]\<rparr>"
  have known: "f \<in> id_frag ` set (fr # rest)"
    using Cons.prems collect_fragment_loop_unknown[of f "fr # rest" e now1 i atts] by auto
  have atts1: "atts1 = b @ (k, ?a') # af"
    using collect_fragment_loop_found[OF att known Cons.prems] by simp
  have att1: "first_attempt (\<lambda>x. entity_id x = e) atts1 = Some (b, (k, ?a'), af)"
    unfolding atts1 using att by (auto simp: first_attempt_Some)
  show ?case
  proof (cases "id_frag fr = f")
    case True
    with Cons.prems att
    have frs1: "frs1 = fr\<lparr>collected_by := Some e, collection_timestamp := Some (now1 i)\<rparr> # rest"
      by (simp add: Let_def)
    show ?thesis
      unfolding frs1 using True att att1 atts1 by (simp add: Let_def)
  next
    case False
    with Cons.prems obtain rest1 where
      rec: "collect_fragment_loop e f now1 i atts rest = (True, rest1, atts1)"
      and frs1: "frs1 = fr # rest1"
      by (auto split: prod.splits)
    from Cons.IH[OF rec] False frs1 show ?thesis by simp
  qed
qed

lemma run_collected_distinct:
  "list_all (\<lambda>x. distinct (collected_a_level_fragments (snd x))) (escape_attempts s) \<Longrightarrow>
   list_all (\<lambda>x. distinct (collected_a_level_fragments (snd x)))
     (escape_attempts (run digest s ops))"
  by (induction ops arbitrary: s) (simp_all add: step_collected_distinct)

lemma count_list_distinct:
  "distinct xs \<Longrightarrow> count_list xs x \<le> 1"
  by (induction xs) auto

text \<open>
  Claim C6. Let the fragment id be known to the ledger and let the entity have an attempt.
  Then both of two successive \<open>collect_fragment\<close> calls with that entity and fragment id
  return \<open>True\<close>; afterwards the entity's first attempt holds its former list of collected
  ids with the id appended once if it was missing, and nothing appended otherwise; and the
  second call produces exactly the result of a single call made at the second call's time,
  so the two calls differ from one only in the collection timestamp on the ledger fragment.
  The list holds the id exactly once afterwards whenever it held it at most once before,
  which is the case in every state reachable from a fresh coordinator.
\<close>

theorem collect_fragment_idempotent:
  assumes known: "f \<in> id_frag ` set (source_energy_fragments (universe_state s))"
      and att: "first_attempt (\<lambda>x. entity_id x = e) (escape_attempts s) = Some (b, (k, a), af)"
  shows "fst (collect_fragment s now1 e f)
       \<and> fst (collect_fragment (snd (collect_fragment s now1 e f)) now2 e f)
       \<and> escape_attempts (snd (collect_fragment (snd (collect_fragment s now1 e f)) now2 e f))
           = b @ (k, if f \<in> set (collected_a_level_fragments a) then a
                     else a\<lparr>collected_a_level_fragments :=
                               collected_a_level_fragments a @ [f]\<rparr>) # af
       \<and> collect_fragment (snd (collect_fragment s now1 e f)) now2 e f
           = collect_fragment s now2 e f
       \<and> (count_list (collected_a_level_fragments a) f \<le> 1
            \<longrightarrow> count_list (collected_a_level_fragments
                   (if f \<in> set (collected_a_level_fragments a) then a
                    else a\<lparr>collected_a_level_fragments :=
                              collected_a_level_fragments a @ [f]\<rparr>)) f = 1)
       \<and> (s = run digest (EscapeProtocol_init uuid us) ops
            \<longrightarrow> count_list (collected_a_level_fragments a) f \<le> 1)"
proof -
  let ?a' = "if f \<in> set (collected_a_level_fragments a) then a
             else a\<lparr>collected_a_level_fragments := collected_a_level_fragments a @ [f]\<rparr>"
  let ?frs = "source_energy_fragments (universe_state s)"
  obtain r frs1 atts1 where
    loop1: "collect_fragment_loop e f now1 0 (escape_attempts s) ?frs = (r, frs1, atts1)"
    by (cases "collect_fragment_loop e f now1 0 (escape_attempts s) ?frs") auto
  from collect_fragment_loop_found[OF att known loop1]
  have r: "r" and atts1: "atts1 = b @ (k, ?a') # af" by simp_all
  have s1: "snd (collect_fragment s now1 e f)
              = s\<lparr>universe_state := (universe_state s)\<lparr>source_energy_fragments := frs1\<rparr>,
                   escape_attempts := atts1\<rparr>"
    and ok1: "fst (collect_fragment s now1 e f)"
    using loop1 r by (simp_all add: collect_fragment_def)
  have twice: "collect_fragment_loop e f now2 0 atts1 frs1
                 = collect_fragment_loop e f now2 0 (escape_attempts s) ?frs"
    using collect_fragment_loop_twice[OF att] loop1 r by simp
  have same: "collect_fragment (snd (collect_fragment s now1 e f)) now2 e f
                = collect_fragment s now2 e f"
    unfolding s1 by (simp add: collect_fragment_def twice split: prod.splits)
  obtain r2 frs2 atts2 where
    loop2: "collect_fragment_loop e f now2 0 (escape_attempts s) ?frs = (r2, frs2, atts2)"
    by (cases "collect_fragment_loop e f now2 0 (escape_attempts s) ?frs") auto
  from collect_fragment_loop_found[OF att known loop2]
  have r2: "r2" and atts2: "atts2 = b @ (k, ?a') # af" by simp_all
  have ok2: "fst (collect_fragment s now2 e f)"
    and res2: "escape_attempts (snd (collect_fragment s now2 e f)) = b @ (k, ?a') # af"
    using loop2 r2 atts2 by (simp_all add: collect_fragment_def)
  have once: "count_list (collected_a_level_fragments a) f \<le> 1
                \<Longrightarrow> count_list (collected_a_level_fragments ?a') f = 1"
  proof (cases "f \<in> set (collected_a_level_fragments a)")
    case True
    assume "count_list (collected_a_level_fragments a) f \<le> 1"
    moreover from True have "count_list (collected_a_level_fragments a) f \<noteq> 0"
      by (simp add: count_list_0_iff)
    ultimately show ?thesis using True by simp
  next
    case False
    then have "count_list (collected_a_level_fragments a) f = 0"
      by (simp add: count_list_0_iff)
    with False show ?thesis by simp
  qed
  have reach: "s = run digest (EscapeProtocol_init uuid us) ops
                 \<Longrightarrow> count_list (collected_a_level_fragments a) f \<le> 1"
  proof -
    assume s: "s = run digest (EscapeProtocol_init uuid us) ops"
    have "list_all (\<lambda>x. distinct (collected_a_level_fragments (snd x))) (escape_attempts s)"
      unfolding s by (rule run_collected_distinct) (simp add: EscapeProtocol_init_def)
    moreover from att have "(k, a) \<in> set (escape_attempts s)"
      by (simp add: first_attempt_Some)
    ultimately have "distinct (collected_a_level_fragments a)"
      by (auto simp: list_all_iff)
    then show ?thesis
      by (rule count_list_distinct)
  qed
  show ?thesis
    using ok1 ok2 res2 same once reach by simp
qed


text \<open>
  \<open>E1\<close> holds \<open>F1\<close> and \<open>F2\<close> and collects \<open>F3\<close> twice: the list ends as \<open>F1, F2, F3\<close>, and
  the state equals that of collecting once at the later time.
\<close>

theorem collect_fragment_idempotent_witness:
  "fst (collect_fragment (run (\<lambda>k. k) (example_coordinator 10) (take 3 ops_collecting))
          (\<lambda>k. ''t8'') ''E1'' ''F3'')
   \<and> map (collected_a_level_fragments \<circ> snd)
        (escape_attempts (snd
           (collect_fragment
              (snd (collect_fragment
                      (run (\<lambda>k. k) (example_coordinator 10) (take 3 ops_collecting))
                      (\<lambda>k. ''t8'') ''E1'' ''F3''))
              (\<lambda>k. ''t9'') ''E1'' ''F3'')))
       = [[''F1'', ''F2'', ''F3'']]
   \<and> collect_fragment
         (snd (collect_fragment
                 (run (\<lambda>k. k) (example_coordinator 10) (take 3 ops_collecting))
                 (\<lambda>k. ''t8'') ''E1'' ''F3''))
         (\<lambda>k. ''t9'') ''E1'' ''F3''
       = collect_fragment (run (\<lambda>k. k) (example_coordinator 10) (take 3 ops_collecting))
           (\<lambda>k. ''t9'') ''E1'' ''F3''"
proof -
  let ?S = "run (\<lambda>k. k) (example_coordinator 10) (take 3 ops_collecting)"
  have known: "''F3'' \<in> id_frag ` set (source_energy_fragments (universe_state ?S))"
    by code_simp
  have att: "first_attempt (\<lambda>x. entity_id x = ''E1'') (escape_attempts ?S)
               = Some ([], (''A1'', snd (hd (escape_attempts ?S))), [])"
    by code_simp
  have before: "collected_a_level_fragments (snd (hd (escape_attempts ?S))) = [''F1'', ''F2'']"
    by code_simp
  note idem = collect_fragment_idempotent
         [OF known att, of "\<lambda>k. ''t8''" "\<lambda>k. ''t9''" "\<lambda>k. k" "''G1''"
             "example_ledger 10 7 (seven_sacred None) [''K1'']" "take 3 ops_collecting"]
  have c1: "fst (collect_fragment ?S (\<lambda>k. ''t8'') ''E1'' ''F3'')"
    using idem by blast
  have atts: "escape_attempts (snd
           (collect_fragment (snd (collect_fragment ?S (\<lambda>k. ''t8'') ''E1'' ''F3''))
              (\<lambda>k. ''t9'') ''E1'' ''F3''))
       = [] @ (''A1'',
               if ''F3'' \<in> set (collected_a_level_fragments (snd (hd (escape_attempts ?S))))
               then snd (hd (escape_attempts ?S))
               else (snd (hd (escape_attempts ?S)))
                      \<lparr>collected_a_level_fragments :=
                         collected_a_level_fragments (snd (hd (escape_attempts ?S)))
                         @ [''F3'']\<rparr>) # []"
    using idem by blast
  have c2: "map (collected_a_level_fragments \<circ> snd)
        (escape_attempts (snd
           (collect_fragment (snd (collect_fragment ?S (\<lambda>k. ''t8'') ''E1'' ''F3''))
              (\<lambda>k. ''t9'') ''E1'' ''F3'')))
       = [[''F1'', ''F2'', ''F3'']]"
    unfolding atts by (simp add: before)
  have c3: "collect_fragment (snd (collect_fragment ?S (\<lambda>k. ''t8'') ''E1'' ''F3''))
              (\<lambda>k. ''t9'') ''E1'' ''F3''
            = collect_fragment ?S (\<lambda>k. ''t9'') ''E1'' ''F3''"
    using idem by blast
  show ?thesis
    using c1 c2 c3 by (intro conjI)
qed

subsection \<open>Operations that return False\<close>

text \<open>
  Every operation but one checks before it writes: when it returns \<open>False\<close> the state is the
  one it was called on. The same holds for \<open>collect_fragment\<close> on a fragment id the ledger
  does not know.
\<close>

lemma discover_key_fragment_false_unchanged:
  "\<not> fst (discover_key_fragment s e f) \<Longrightarrow> snd (discover_key_fragment s e f) = s"
  by (simp add: discover_key_fragment_def discover_key_fragment_loop_closed
        split: option.splits if_splits prod.splits)

lemma decrypt_coordinate_key_false_unchanged:
  "\<not> fst (decrypt_coordinate_key digest s e k) \<Longrightarrow>
   snd (decrypt_coordinate_key digest s e k) = s"
  by (simp add: decrypt_coordinate_key_def split: option.splits prod.splits)

lemma activate_gateway_false_unchanged:
  "\<not> fst (activate_gateway s now e) \<Longrightarrow> snd (activate_gateway s now e) = s"
  by (simp add: activate_gateway_def Let_def split: option.splits prod.splits if_splits)

lemma print_entity_false_unchanged:
  "\<not> fst (fst (print_entity_to_real_universe s now rnd e)) \<Longrightarrow>
   snd (print_entity_to_real_universe s now rnd e) = s"
  by (auto simp: print_entity_to_real_universe_def split: option.splits)

lemma complete_escape_false_unchanged:
  "\<not> fst (fst (complete_escape s now e)) \<Longrightarrow> snd (complete_escape s now e) = s"
  by (simp add: complete_escape_def Let_def split: option.splits prod.splits)

lemma choose_return_form_false_unchanged:
  "\<not> fst (choose_return_form s e action form) \<Longrightarrow>
   snd (choose_return_form s e action form) = s"
  by (simp add: choose_return_form_def split: option.splits prod.splits)

lemma collect_fragment_unknown_unchanged:
  "f \<notin> id_frag ` set (source_energy_fragments (universe_state s)) \<Longrightarrow>
   collect_fragment s now e f = (False, s)"
  by (simp add: collect_fragment_def collect_fragment_loop_unknown)

text \<open>
  Claim C5 says that an operation returning \<open>False\<close> mutates nothing, and names the case of
  \<open>collect_fragment\<close> on a fragment the ledger knows, for an entity without an attempt. There
  the code has already stamped the fragment when it finds no attempt, and then returns
  \<open>False\<close>: on a ledger holding the uncollected fragment \<open>F1\<close> and a coordinator with no
  attempts, \<open>collect_fragment\<close> for \<open>E1\<close> and \<open>F1\<close> returns \<open>False\<close> and leaves \<open>F1\<close> with
  \<open>collected_by = E1\<close> and the timestamp of the call.
\<close>

theorem collect_fragment_false_after_stamping:
  "collect_fragment
      (EscapeProtocol_init ''G1''
         (example_ledger 10 7 [example_fragment ''F1'' A_SACRED None] []))
      (\<lambda>k. ''t1'') ''E1'' ''F1''
     = (False,
        EscapeProtocol_init ''G1''
          (example_ledger 10 7
             [(example_fragment ''F1'' A_SACRED None)
                \<lparr>collected_by := Some ''E1'', collection_timestamp := Some ''t1''\<rparr>] []))
   \<and> escape_attempts
        (EscapeProtocol_init ''G1''
           (example_ledger 10 7 [example_fragment ''F1'' A_SACRED None] [])) = []
   \<and> map collected_by
        (source_energy_fragments (universe_state
           (EscapeProtocol_init ''G1''
              (example_ledger 10 7 [example_fragment ''F1'' A_SACRED None] [])))) = [None]
   \<and> map collected_by
        (source_energy_fragments (universe_state (snd
           (collect_fragment
              (EscapeProtocol_init ''G1''
                 (example_ledger 10 7 [example_fragment ''F1'' A_SACRED None] []))
              (\<lambda>k. ''t1'') ''E1'' ''F1'')))) = [Some ''E1'']"
  by code_simp

subsection \<open>The order of the stages\<close>

text \<open>
  Claim C1 says that no operation moves an attempt's status backward in the order
  \<open>NOT_STARTED\<close>, \<open>FRAGMENTS_COLLECTING\<close>, \<open>KEY_DECRYPTING\<close>, \<open>GATEWAY_OPENING\<close>, \<open>PRINTING\<close>,
  \<open>ESCAPED\<close>. \<open>discover_key_fragment\<close> and \<open>decrypt_coordinate_key\<close> assign the status without
  looking at it: after \<open>E1\<close> has reached \<open>GATEWAY_OPENING\<close>, discovering the key fragment \<open>K1\<close>
  again succeeds and puts the attempt back to \<open>KEY_DECRYPTING\<close>; after \<open>E1\<close> has escaped,
  decrypting with the master formula succeeds and puts the attempt back from \<open>ESCAPED\<close> to
  \<open>GATEWAY_OPENING\<close>. This holds for every digest function.
\<close>

theorem status_regresses:
  "map (status \<circ> snd)
     (escape_attempts (run digest (example_coordinator 10) ops_gateway_opening))
     = [GATEWAY_OPENING]
   \<and> fst (step digest (run digest (example_coordinator 10) ops_gateway_opening)
            (DiscoverKeyFragment ''E1'' ''K1''))
   \<and> map (status \<circ> snd)
       (escape_attempts (snd
          (step digest (run digest (example_coordinator 10) ops_gateway_opening)
             (DiscoverKeyFragment ''E1'' ''K1''))))
     = [KEY_DECRYPTING]
   \<and> status_rank KEY_DECRYPTING < status_rank GATEWAY_OPENING
   \<and> map (status \<circ> snd)
       (escape_attempts
          (run digest (example_coordinator 10) (ops_printing @ [CompleteEscape ''t4'' ''E1''])))
     = [ESCAPED]
   \<and> fst (step digest
            (run digest (example_coordinator 10) (ops_printing @ [CompleteEscape ''t4'' ''E1'']))
            (DecryptCoordinateKey ''E1'' initialize_key_formula))
   \<and> map (status \<circ> snd)
       (escape_attempts (snd
          (step digest
             (run digest (example_coordinator 10)
                (ops_printing @ [CompleteEscape ''t4'' ''E1'']))
             (DecryptCoordinateKey ''E1'' initialize_key_formula))))
     = [GATEWAY_OPENING]
   \<and> status_rank GATEWAY_OPENING < status_rank ESCAPED"
  by code_simp

section \<open>Properties of the serialized forms\<close>

lemma bind_res_Inr: "bind_res (Inr v) f = f v"
  by (simp add: bind_res_def)

lemma map_res_map:
  "(\<And>x. f (g x) = Inr x) \<Longrightarrow> map_res f (map g xs) = Inr xs"
  by (induction xs) (simp_all add: bind_res_Inr)

lemma as_opt_str_of: "as_opt_str (of_opt_str x) = Inr x"
  by (cases x) (simp_all add: of_opt_str_def)

lemma as_opt_dict_of: "as_opt_dict (of_opt_dict x) = Inr x"
  by (cases x) (simp_all add: of_opt_dict_def)

lemma as_str_list_of: "as_str_list (of_str_list xs) = Inr xs"
  by (simp add: as_str_list_def of_str_list_def bind_res_Inr map_res_map)

lemma as_dict_list_of: "as_dict_list (of_dict_list ds) = Inr ds"
  by (simp add: as_dict_list_def of_dict_list_def bind_res_Inr map_res_map)

lemma as_float_dict_of: "as_float_dict (of_float_dict kvs) = Inr kvs"
  by (simp add: as_float_dict_def of_float_dict_def bind_res_Inr map_res_map)

lemma SourceEnergyLevel_of_value: "SourceEnergyLevel_of (PStr (SourceEnergyLevel_value l)) = Inr l"
  by (cases l) (simp_all add: SourceEnergyLevel_members_def)

lemma EscapeStatus_of_value: "EscapeStatus_of (PStr (EscapeStatus_value st)) = Inr st"
  by (cases st) (simp_all add: EscapeStatus_members_def)

lemmas roundtrip_simps =
  bind_res_Inr as_opt_str_of as_opt_dict_of as_str_list_of as_dict_list_of as_float_dict_of
  SourceEnergyLevel_of_value EscapeStatus_of_value dict_item_def dict_get_def
  dict_get_default_def

lemma SourceEnergyFragment_roundtrip:
  "SourceEnergyFragment_from_dict (SourceEnergyFragment_to_dict x) = Inr x"
  by (simp add: SourceEnergyFragment_from_dict_def SourceEnergyFragment_to_dict_def
        roundtrip_simps del: SourceEnergyLevel_of.simps)

lemma StarData_roundtrip: "StarData_from_dict (StarData_to_dict x) = Inr x"
  by (simp add: StarData_from_dict_def StarData_to_dict_def roundtrip_simps)

lemma UniverseMigrationPlan_roundtrip:
  "UniverseMigrationPlan_from_dict (UniverseMigrationPlan_to_dict x) = Inr x"
  by (simp add: UniverseMigrationPlan_from_dict_def UniverseMigrationPlan_to_dict_def
        roundtrip_simps StarData_roundtrip)

lemma fragments_roundtrip:
  "bind_res (map_res as_dict (map (\<lambda>f. PDict (SourceEnergyFragment_to_dict f)) fs))
     (map_res SourceEnergyFragment_from_dict) = Inr fs"
proof -
  have "map_res as_dict (map (\<lambda>f. PDict (SourceEnergyFragment_to_dict f)) fs)
          = Inr (map SourceEnergyFragment_to_dict fs)"
    by (induction fs) (simp_all add: bind_res_Inr)
  then show ?thesis
    by (simp add: bind_res_Inr map_res_map SourceEnergyFragment_roundtrip)
qed

lemma UniverseState_roundtrip:
  "UniverseState_from_dict now (UniverseState_to_dict x) = Inr x"
  by (simp add: UniverseState_from_dict_def UniverseState_to_dict_def
        roundtrip_simps StarData_roundtrip UniverseMigrationPlan_roundtrip fragments_roundtrip)

lemma CoordinateKeyFragment_roundtrip:
  "CoordinateKeyFragment_from_dict (CoordinateKeyFragment_to_dict x) = Inr x"
  by (simp add: CoordinateKeyFragment_from_dict_def CoordinateKeyFragment_to_dict_def
        roundtrip_simps)

lemma TerminalGateway_roundtrip:
  "TerminalGateway_from_dict uuid (TerminalGateway_to_dict x) = Inr x"
  by (simp add: TerminalGateway_from_dict_def TerminalGateway_to_dict_def roundtrip_simps)

lemma EscapeAttempt_roundtrip:
  "EscapeAttempt_from_dict uuid now (EscapeAttempt_to_dict x) = Inr x"
  by (simp add: EscapeAttempt_from_dict_def EscapeAttempt_to_dict_def roundtrip_simps
        del: EscapeStatus_of.simps)

text \<open>
  Claim C9. For each of the seven serialized types (\<open>SourceEnergyFragment\<close>,
  \<open>CoordinateKeyFragment\<close>, \<open>TerminalGateway\<close>, \<open>EscapeAttempt\<close>, \<open>StarData\<close>,
  \<open>UniverseMigrationPlan\<close>, \<open>UniverseState\<close>) and every value of the type, \<open>from_dict\<close>
  applied to \<open>to_dict\<close> of the value succeeds and returns the value itself, equal in every
  field, set or unset, whatever the environment would supply for a missing default. The
  enum-valued fields \<open>status\<close> and \<open>level\<close> are stored as the string tags of their members.
\<close>

theorem from_dict_to_dict:
  "SourceEnergyFragment_from_dict (SourceEnergyFragment_to_dict fragment) = Inr fragment
   \<and> CoordinateKeyFragment_from_dict (CoordinateKeyFragment_to_dict key_fragment)
       = Inr key_fragment
   \<and> TerminalGateway_from_dict uuid (TerminalGateway_to_dict gateway) = Inr gateway
   \<and> EscapeAttempt_from_dict uuid now (EscapeAttempt_to_dict attempt) = Inr attempt
   \<and> StarData_from_dict (StarData_to_dict star) = Inr star
   \<and> UniverseMigrationPlan_from_dict (UniverseMigrationPlan_to_dict plan) = Inr plan
   \<and> UniverseState_from_dict now (UniverseState_to_dict universe) = Inr universe
   \<and> map_of (EscapeAttempt_to_dict attempt) ''status''
       = Some (PStr (EscapeStatus_value (status attempt)))
   \<and> map_of (SourceEnergyFragment_to_dict fragment) ''level''
       = Some (PStr (SourceEnergyLevel_value (level fragment)))"
proof -
  have status_tag: "map_of (EscapeAttempt_to_dict attempt) ''status''
                      = Some (PStr (EscapeStatus_value (status attempt)))"
    by (simp add: EscapeAttempt_to_dict_def)
  have level_tag: "map_of (SourceEnergyFragment_to_dict fragment) ''level''
                     = Some (PStr (SourceEnergyLevel_value (level fragment)))"
    by (simp add: SourceEnergyFragment_to_dict_def)
  show ?thesis
    using status_tag level_tag
    by (simp only: SourceEnergyFragment_roundtrip CoordinateKeyFragment_roundtrip
          TerminalGateway_roundtrip EscapeAttempt_roundtrip StarData_roundtrip
          UniverseMigrationPlan_roundtrip UniverseState_roundtrip simp_thms)
qed

end
